theory Spec2Isabelle
  imports Complex_Main
begin

section \<open>Audio loading of paderbox (\<open>paderbox/io/audioread.py\<close>)\<close>

text \<open>
  A shallow embedding of \<open>load_audio\<close>, \<open>_parse_audio_slice\<close> and
  \<open>recursive_load_audio\<close>. Strings are \<open>char list\<close>s, Python's unbounded integers are
  \<open>int\<close>, a number that a caller gives is an \<open>int\<close> or a \<open>float\<close>, every \<open>raise\<close> and
  every failing \<open>assert\<close> is an \<open>Inl\<close> value.
\<close>

subsection \<open>Channel selections and errors\<close>

text \<open>
  The \<open>channel\<close> argument: an integer, a \<open>slice(lo, hi)\<close> with optional bounds, or a
  list of integers.
\<close>

datatype channel = Index int | Slice "int option" "int option" | IndexList "int list"

text \<open>
  A number of the caller: an \<open>int\<close> of Python, or a \<open>float\<close>, which is the rational
  number it stands for. The two compare by value, and only an \<open>int\<close> is an index.
\<close>

datatype pynum = PyInt int | PyFloat rat

definition num_value :: "pynum \<Rightarrow> rat" where
  "num_value v = (case v of PyInt i \<Rightarrow> of_int i | PyFloat x \<Rightarrow> x)"

definition as_index :: "pynum \<Rightarrow> int option" where
  "as_index v = (case v of PyInt i \<Rightarrow> Some i | PyFloat x \<Rightarrow> None)"

text \<open>The payload of each failing \<open>assert\<close>, in the order of the source.\<close>

datatype assert_info =
    AssertUnit string
  | AssertFrames pynum
  | AssertStart pynum
  | AssertStop pynum
  | AssertChannel channel
  | AssertNoSpace string
  | AssertPartialM4a
  | AssertNdim "nat list" channel

text \<open>
  \<open>re.fullmatch\<close> returns \<open>None\<close> on a mismatch, and \<open>None.groups()\<close> raises an
  \<open>AttributeError\<close>: the exception that \<open>raise ValueError(path) from e\<close> wraps.
\<close>

datatype cause = AttributeError

datatype value_info =
    BadUnit string
  | BadSlice string cause
  | RateMismatch int int
  | EmptySignal
  | UnpackFailed
  | ConcatEmpty
  | Inhomogeneous

datatype runtime_info =
    OpenFailed string
  | CouldNotRead string string
  | WrongSuffix string string string

datatype error =
    AssertionError assert_info
  | ValueError value_info
  | NotImplementedError string pynum
  | TypeError string
  | IndexError
  | KeyError string
  | RuntimeError runtime_info
  | AudioreadError string
  | FileNotFoundError string

subsection \<open>Decimal numbers\<close>

text \<open>
  The characters that \<open>\d\<close> matches. A \<open>char\<close> is one byte, and among the first 256
  code points only the ten ASCII digits are decimal digits.
\<close>

definition is_digit :: "char \<Rightarrow> bool" where
  "is_digit c = (c \<in> set ''0123456789'')"

definition digit_value :: "char \<Rightarrow> int" where
  "digit_value c = int (of_char c) - 48"

text \<open>\<open>int(x)\<close> on a string of decimal digits.\<close>

definition int_py :: "string \<Rightarrow> int" where
  "int_py s = foldl (\<lambda>a c. 10 * a + digit_value c) 0 s"

definition digit_char :: "nat \<Rightarrow> char" where
  "digit_char d = ''0123456789'' ! d"

fun show_nat :: "nat \<Rightarrow> string" where
  "show_nat n = (if n < 10 then [digit_char n] else show_nat (n div 10) @ [digit_char (n mod 10)])"

declare show_nat.simps [simp del]

text \<open>The text an f-string gives an integer.\<close>

definition show_int :: "int \<Rightarrow> string" where
  "show_int i = (if i < 0 then CHR ''-'' # show_nat (nat (- i)) else show_nat (nat i))"

subsection \<open>The slice annotation\<close>

text \<open>
  \<open>path.rsplit('::', maxsplit=1)\<close>: the text before and after the rightmost \<open>::\<close>,
  \<open>None\<close> when there is no \<open>::\<close> (the source then fails to unpack two values).
\<close>

fun rsplit_dcolon :: "string \<Rightarrow> (string \<times> string) option" where
  "rsplit_dcolon [] = None"
| "rsplit_dcolon (c # cs) =
     (case rsplit_dcolon cs of
        Some (a, b) \<Rightarrow> Some (c # a, b)
      | None \<Rightarrow>
          (case cs of
             [] \<Rightarrow> None
           | d # ds \<Rightarrow> if c = CHR '':'' \<and> d = CHR '':'' then Some ([], ds) else None))"

text \<open>\<open>'::' in path\<close>.\<close>

fun contains_dcolon :: "string \<Rightarrow> bool" where
  "contains_dcolon (c # d # cs) = ((c = CHR '':'' \<and> d = CHR '':'') \<or> contains_dcolon (d # cs))"
| "contains_dcolon _ = False"

text \<open>An optional group \<open>(\d+)?\<close>: the longest run of digits, absent when empty.\<close>

definition opt_digits :: "string \<Rightarrow> string option \<times> string" where
  "opt_digits s =
     (let ds = takeWhile is_digit s
      in (if ds = [] then None else Some ds, dropWhile is_digit s))"

text \<open>
  \<open>re.fullmatch(_PATTERN, s).groups()\<close> for
  \<open>_PATTERN = \[(\d+)?:(\d+)?(?:,(?:(\d+)?:(\d+)?|(\d+)?))?\]\<close>:
  the five groups, or \<open>None\<close> when the text does not match. Each \<open>(\d+)?\<close> is followed
  by a character that is no digit, so only its longest run of digits can match. After
  the comma the first alternative is tried first, and the second one when it fails.
\<close>

definition expect :: "char \<Rightarrow> string \<Rightarrow> string option" where
  "expect c s = (case s of [] \<Rightarrow> None | x # r \<Rightarrow> if x = c then Some r else None)"

text \<open>The first alternative after the comma, \<open>(\d+)?:(\d+)?\<close>, up to the closing bracket.\<close>

definition match_channel_range ::
  "string \<Rightarrow> (string option \<times> string option \<times> string option) option"
where
  "match_channel_range r =
     (case opt_digits r of
        (g3, r1) \<Rightarrow>
          (case expect (CHR '':'') r1 of
             None \<Rightarrow> None
           | Some r2 \<Rightarrow>
               (case opt_digits r2 of
                  (g4, r3) \<Rightarrow> if r3 = '']'' then Some (g3, g4, None) else None)))"

text \<open>The second alternative, \<open>(\d+)?\<close>, up to the closing bracket.\<close>

definition match_channel_index ::
  "string \<Rightarrow> (string option \<times> string option \<times> string option) option"
where
  "match_channel_index r =
     (case opt_digits r of (g5, r1) \<Rightarrow> if r1 = '']'' then Some (None, None, g5) else None)"

text \<open>The optional group \<open>(?:,(?:...|...))?\<close> and the closing bracket.\<close>

definition match_channel_part ::
  "string \<Rightarrow> (string option \<times> string option \<times> string option) option"
where
  "match_channel_part r =
     (case expect (CHR '','') r of
        Some r1 \<Rightarrow>
          (case match_channel_range r1 of
             Some g \<Rightarrow> Some g
           | None \<Rightarrow> match_channel_index r1)
      | None \<Rightarrow> if r = '']'' then Some (None, None, None) else None)"

definition fullmatch_PATTERN ::
  "string \<Rightarrow> (string option \<times> string option \<times> string option \<times> string option \<times> string option) option"
where
  "fullmatch_PATTERN s =
     (case expect (CHR ''['') s of
        None \<Rightarrow> None
      | Some r0 \<Rightarrow>
          (case opt_digits r0 of
             (g1, r1) \<Rightarrow>
               (case expect (CHR '':'') r1 of
                  None \<Rightarrow> None
                | Some r2 \<Rightarrow>
                    (case opt_digits r2 of
                       (g2, r3) \<Rightarrow>
                         (case match_channel_part r3 of
                            None \<Rightarrow> None
                          | Some (g3, g4, g5) \<Rightarrow> Some (g1, g2, g3, g4, g5))))))"

text \<open>
  \<open>_parse_audio_slice(path, start, stop, channel)\<close>. The three asserts on the arguments
  come first, then the split, the assert on a space, the match and the conversion.
\<close>

definition parse_audio_slice ::
  "string \<Rightarrow> pynum \<Rightarrow> pynum option \<Rightarrow> channel option \<Rightarrow>
   error + (string \<times> int \<times> int option \<times> channel option)"
where
  "parse_audio_slice path start stop channel =
     (if num_value start \<noteq> 0 then Inl (AssertionError (AssertStart start))
      else
        (case stop of
           Some s \<Rightarrow> Inl (AssertionError (AssertStop s))
         | None \<Rightarrow>
             (case channel of
                Some ch \<Rightarrow> Inl (AssertionError (AssertChannel ch))
              | None \<Rightarrow>
                  (case rsplit_dcolon path of
                     None \<Rightarrow> Inl (ValueError UnpackFailed)
                   | Some (path', audio_slice) \<Rightarrow>
                       if CHR '' '' \<in> set audio_slice
                       then Inl (AssertionError (AssertNoSpace audio_slice))
                       else
                         (case fullmatch_PATTERN audio_slice of
                            None \<Rightarrow> Inl (ValueError (BadSlice path AttributeError))
                          | Some (g1, g2, g3, g4, g5) \<Rightarrow>
                              (let start' = map_option int_py g1;
                                   stop' = map_option int_py g2;
                                   channel_start = map_option int_py g3;
                                   channel_stop = map_option int_py g4;
                                   channel' = map_option int_py g5;
                                   channel'' =
                                     (case channel' of
                                        Some i \<Rightarrow> Some (Index i)
                                      | None \<Rightarrow>
                                          if \<not> (channel_start = None \<and> channel_stop = None)
                                          then Some (Slice channel_start channel_stop)
                                          else None);
                                   start'' = (case start' of None \<Rightarrow> 0 | Some i \<Rightarrow> i)
                               in Inr (path', start'', stop', channel'')))))))"

subsection \<open>Arrays\<close>

text \<open>
  A numpy array: its shape and its elements in row-major order. The element type is a
  parameter: no property below looks into a sample.
\<close>

record 'a ndarray =
  shape :: "nat list"
  data :: "'a list"

text \<open>\<open>signal.size\<close>.\<close>

definition size_nd :: "'a ndarray \<Rightarrow> nat" where
  "size_nd a = prod_list (shape a)"

text \<open>
  \<open>signal.T\<close>: a one-dimensional array is returned as it is, a two-dimensional one with
  its axes exchanged. The decoders below return no array of another dimension.
\<close>

definition transpose_T :: "'a ndarray \<Rightarrow> 'a ndarray" where
  "transpose_T a =
     (case shape a of
        [r, c] \<Rightarrow>
          \<lparr>shape = [c, r],
           data = concat (map (\<lambda>j. map (\<lambda>i. data a ! (i * c + j)) [0..<r]) [0..<c])\<rparr>
      | _ \<Rightarrow> a)"

text \<open>
  \<open>slice(lo, hi).indices(n)\<close> of Python, without the step: both bounds count from the
  end when negative and are clipped to \<open>0..n\<close>.
\<close>

definition clip_index :: "int \<Rightarrow> int \<Rightarrow> int" where
  "clip_index n x = (if x < 0 then max (x + n) 0 else min x n)"

definition slice_indices :: "int option \<Rightarrow> int option \<Rightarrow> int \<Rightarrow> int \<times> int" where
  "slice_indices lo hi n =
     ((case lo of None \<Rightarrow> 0 | Some x \<Rightarrow> clip_index n x),
      (case hi of None \<Rightarrow> n | Some x \<Rightarrow> clip_index n x))"

text \<open>Row \<open>i\<close> of a two-dimensional array with rows of length \<open>n\<close>.\<close>

definition row_of :: "nat \<Rightarrow> 'a list \<Rightarrow> nat \<Rightarrow> 'a list" where
  "row_of n xs i = take n (drop (i * n) xs)"

text \<open>An integer index on an axis of length \<open>c\<close>: negative values count from the end.\<close>

definition axis_index :: "nat \<Rightarrow> int \<Rightarrow> nat option" where
  "axis_index c i =
     (if 0 \<le> i \<and> i < int c then Some (nat i)
      else if - int c \<le> i \<and> i < 0 then Some (nat (i + int c))
      else None)"

fun axis_indices :: "nat \<Rightarrow> int list \<Rightarrow> nat list option" where
  "axis_indices c [] = Some []"
| "axis_indices c (i # is) =
     (case axis_index c i of
        None \<Rightarrow> None
      | Some j \<Rightarrow> (case axis_indices c is of None \<Rightarrow> None | Some js \<Rightarrow> Some (j # js)))"

text \<open>
  \<open>signal[channel, ]\<close> on an array of shape \<open>(c, n)\<close>: an integer selects one row and
  drops the axis, a slice and a list keep it. An index outside the axis raises.
\<close>

definition index_channel :: "nat \<Rightarrow> nat \<Rightarrow> 'a list \<Rightarrow> channel \<Rightarrow> error + 'a ndarray" where
  "index_channel c n xs ch =
     (case ch of
        Index i \<Rightarrow>
          (case axis_index c i of
             None \<Rightarrow> Inl IndexError
           | Some j \<Rightarrow> Inr \<lparr>shape = [n], data = row_of n xs j\<rparr>)
      | Slice lo hi \<Rightarrow>
          (case slice_indices lo hi (int c) of
             (a, b) \<Rightarrow>
               (let js = [nat a..<nat b]
                in Inr \<lparr>shape = [length js, n], data = concat (map (row_of n xs) js)\<rparr>))
      | IndexList is \<Rightarrow>
          (case axis_indices c is of
             None \<Rightarrow> Inl IndexError
           | Some js \<Rightarrow> Inr \<lparr>shape = [length js, n], data = concat (map (row_of n xs) js)\<rparr>))"

text \<open>Every index that a selection names exists on an axis of length \<open>c\<close>.\<close>

definition channel_exists :: "nat \<Rightarrow> channel \<Rightarrow> bool" where
  "channel_exists c ch =
     (case ch of
        Index i \<Rightarrow> axis_index c i \<noteq> None
      | Slice lo hi \<Rightarrow> True
      | IndexList is \<Rightarrow> axis_indices c is \<noteq> None)"

text \<open>
  The channels that a selection names on an axis of length \<open>c\<close>, in the order of the
  selection; none when an index lies outside the axis.
\<close>

definition selected_channels :: "nat \<Rightarrow> channel \<Rightarrow> nat list option" where
  "selected_channels c ch =
     (case ch of
        Index i \<Rightarrow> (case axis_index c i of None \<Rightarrow> None | Some j \<Rightarrow> Some [j])
      | Slice lo hi \<Rightarrow> (case slice_indices lo hi (int c) of (a, b) \<Rightarrow> Some [nat a..<nat b])
      | IndexList is \<Rightarrow> axis_indices c is)"

subsection \<open>Files and decoders\<close>

text \<open>
  Modelled from the spec: the sound-file decoder (\<open>soundfile.SoundFile\<close>), the lossy-codec
  decoder (\<open>audioread.audio_open\<close>), the content probe (\<open>magic.from_file\<close>) and
  \<open>normalize_path\<close> are collaborators that are not part of \<open>audioread.py\<close>. A sound
  file is its sample rate, its channel count, its subtype and its frames, one list of
  samples per frame; a lossy-codec file is its sample rate, its channel count and its
  decode buffers, which hold the samples of the channels interleaved, frame after
  frame. The probe reads the file and raises when there is none. The product of a
  \<open>float\<close> and the sample rate is the float product of the machine, the double next to
  the exact product: it is a parameter as well.
\<close>

record 'a sound_file =
  samplerate :: int
  channels :: nat
  subtype :: string
  frames_data :: "'a list list"

record 'a m4a_file =
  m4a_samplerate :: int
  m4a_channels :: nat
  buffers :: "'a list list"

record 'a env =
  normalize_path :: "string \<Rightarrow> string"
  sf_open :: "string \<Rightarrow> 'a sound_file option"
  audio_open :: "string \<Rightarrow> 'a m4a_file option"
  magic_from_file :: "string \<Rightarrow> string option"
  float_product :: "rat \<Rightarrow> int \<Rightarrow> rat"

text \<open>
  Modelled from the spec: \<open>SoundFile._prepare_read(start, stop, frames)\<close>, which resolves
  the read window. \<open>frames\<close> and \<open>stop\<close> exclude each other; \<open>start\<close> and \<open>stop\<close> are
  indices of a slice and count from the end when negative; a negative \<open>frames\<close>, of
  either kind of number, reads up to \<open>stop\<close>. The result is the position to read from
  and the frames to read, which are the caller's number when it is not negative.
\<close>

definition prepare_read ::
  "'a sound_file \<Rightarrow> pynum \<Rightarrow> pynum option \<Rightarrow> pynum \<Rightarrow> error + (nat \<times> pynum)"
where
  "prepare_read f start stop frames =
     (if 0 \<le> num_value frames \<and> stop \<noteq> None
      then Inl (TypeError ''Only one of {frames, stop} may be used'')
      else
        (case as_index start of
           None \<Rightarrow> Inl (TypeError ''slice indices must be integers'')
         | Some start' \<Rightarrow>
             (case (case stop of None \<Rightarrow> Some None | Some s \<Rightarrow> map_option Some (as_index s)) of
                None \<Rightarrow> Inl (TypeError ''slice indices must be integers'')
              | Some stop' \<Rightarrow>
                  (case slice_indices (Some start') stop' (int (length (frames_data f))) of
                     (a, b) \<Rightarrow>
                       (let b' = (if b < a then a else b);
                            frames' = (if num_value frames < 0 then PyInt (b' - a) else frames)
                        in Inr (nat a, frames'))))))"

text \<open>
  Modelled from the spec: the number of frames of the buffer that \<open>SoundFile.read\<close>
  creates (\<open>_check_frames\<close> and \<open>_create_empty_array\<close>). More frames than remain,
  asked for without a fill value, are the frames that remain; any other number has to
  be an \<open>int\<close>.
\<close>

definition buffer_frames :: "'a sound_file \<Rightarrow> nat \<Rightarrow> pynum \<Rightarrow> 'a option \<Rightarrow> error + nat" where
  "buffer_frames f pos frames fill =
     (case frames of
        PyInt n \<Rightarrow> Inr (nat n)
      | PyFloat x \<Rightarrow>
          if of_nat (length (frames_data f) - pos) < x \<and> fill = None
          then Inr (length (frames_data f) - pos)
          else Inl (TypeError ''float object cannot be interpreted as an integer''))"

text \<open>
  Modelled from the spec: \<open>SoundFile.read(frames, fill_value, always_2d)\<close> at position
  \<open>pos\<close>. When fewer frames remain than requested, the buffer is topped up with
  \<open>fill_value\<close> when it is given and is shorter otherwise. The buffer has the axes
  (sample, channel); the channel axis is left out for a file of one channel unless
  \<open>always_2d\<close> is set.
\<close>

definition read_rows :: "'a sound_file \<Rightarrow> nat \<Rightarrow> nat \<Rightarrow> 'a option \<Rightarrow> 'a list list" where
  "read_rows f pos frames fill =
     (let got = take frames (drop pos (frames_data f))
      in case fill of
           None \<Rightarrow> got
         | Some v \<Rightarrow> got @ replicate (frames - length got) (replicate (channels f) v))"

text \<open>
  Modelled from the spec: the buffer that \<open>SoundFile.read\<close> returns for these frames,
  which is not part of \<open>audioread.py\<close>.
\<close>

definition sf_read :: "'a sound_file \<Rightarrow> nat \<Rightarrow> nat \<Rightarrow> 'a option \<Rightarrow> bool \<Rightarrow> 'a ndarray" where
  "sf_read f pos frames fill always_2d =
     (let rows = read_rows f pos frames fill
      in \<lparr>shape =
            (if always_2d \<or> 1 < channels f then [length rows, channels f] else [length rows]),
          data = concat rows\<rparr>)"

text \<open>The frames that remain in a file from the start \<open>s\<close> of a request on.\<close>

definition remaining_frames :: "'a sound_file \<Rightarrow> int \<Rightarrow> nat" where
  "remaining_frames f s =
     length (frames_data f) - nat (clip_index (int (length (frames_data f))) s)"

text \<open>The length of the sample axis, the last one of a signal.\<close>

definition sample_axis :: "'a ndarray \<Rightarrow> nat" where
  "sample_axis x = last (shape x)"


subsection \<open>Paths\<close>

text \<open>The components of a path, split at every slash.\<close>

fun split_slash :: "string \<Rightarrow> string list" where
  "split_slash [] = [[]]"
| "split_slash (c # cs) =
     (if c = CHR ''/'' then [] # split_slash cs
      else (case split_slash cs of [] \<Rightarrow> [[c]] | p # ps \<Rightarrow> (c # p) # ps))"

text \<open>\<open>Path(path).name\<close>: the last component that is neither empty nor a single dot.\<close>

definition path_name :: "string \<Rightarrow> string" where
  "path_name p =
     (case filter (\<lambda>q. q \<noteq> [] \<and> q \<noteq> ''.'') (split_slash p) of
        [] \<Rightarrow> []
      | q # qs \<Rightarrow> last (q # qs))"

text \<open>
  \<open>Path(path).suffix\<close>: the name from its last dot on, when that dot is neither the first
  nor the last character of the name.
\<close>

definition path_suffix :: "string \<Rightarrow> string" where
  "path_suffix p =
     (let r = rev (path_name p);
          ext = takeWhile (\<lambda>c. c \<noteq> CHR ''.'') r;
          rest = dropWhile (\<lambda>c. c \<noteq> CHR ''.'') r
      in if 2 \<le> length rest \<and> ext \<noteq> [] then CHR ''.'' # rev ext else [])"

subsection \<open>The request\<close>

text \<open>The keyword arguments of \<open>load_audio\<close>, with the path the call is given.\<close>

record 'a load_args =
  path :: string
  frames :: pynum
  start :: pynum
  stop :: "pynum option"
  channel :: "channel option"
  dtype :: "string option"
  fill_value :: "'a option"
  expected_sample_rate :: "int option"
  unit :: string
  return_sample_rate :: bool

text \<open>The defaults of the signature.\<close>

definition default_args :: "string \<Rightarrow> 'a load_args" where
  "default_args p =
     \<lparr>path = p, frames = PyInt (- 1), start = PyInt 0, stop = None, channel = None,
      dtype = Some ''float64'', fill_value = None, expected_sample_rate = None,
      unit = ''samples'', return_sample_rate = False\<rparr>"

text \<open>What \<open>load_audio\<close> returns: the signal, or the signal and the sample rate.\<close>

datatype 'a loaded = Signal "'a ndarray" | SignalRate "'a ndarray" int

definition signal_of :: "'a loaded \<Rightarrow> 'a ndarray" where
  "signal_of r = (case r of Signal a \<Rightarrow> a | SignalRate a _ \<Rightarrow> a)"

text \<open>\<open>np.round\<close> on a \<open>float\<close>: the nearest integer, and the even one at a tie.\<close>

definition np_round :: "rat \<Rightarrow> int" where
  "np_round x =
     (let f = \<lfloor>x\<rfloor>; d = x - of_int f
      in if d < 1 / 2 then f
         else if 1 / 2 < d then f + 1
         else if even f then f else f + 1)"

text \<open>
  \<open>x * samplerate\<close>: exact for an \<open>int\<close>, the float product for a \<open>float\<close>.
\<close>

definition times_samplerate :: "'a env \<Rightarrow> pynum \<Rightarrow> int \<Rightarrow> pynum" where
  "times_samplerate e v sr =
     (case v of PyInt i \<Rightarrow> PyInt (i * sr) | PyFloat x \<Rightarrow> PyFloat (float_product e x sr))"

text \<open>\<open>int(np.round(v))\<close>.\<close>

definition round_to_int :: "pynum \<Rightarrow> int" where
  "round_to_int v = (case v of PyInt i \<Rightarrow> i | PyFloat x \<Rightarrow> np_round x)"

text \<open>\<open>int(np.round(v * samplerate))\<close>, the conversion of seconds to samples.\<close>

definition to_samples :: "'a env \<Rightarrow> pynum \<Rightarrow> int \<Rightarrow> pynum" where
  "to_samples e v sr = PyInt (round_to_int (times_samplerate e v sr))"

text \<open>
  The first block of \<open>load_audio\<close>: the path is normalised and, when it holds \<open>::\<close>, the
  two asserts run and \<open>_parse_audio_slice\<close> replaces path, start, stop and channel.
\<close>

definition apply_slice :: "'a env \<Rightarrow> 'a load_args \<Rightarrow> error + 'a load_args" where
  "apply_slice e a =
     (let p = normalize_path e (path a)
      in if contains_dcolon p
         then
           if unit a \<noteq> ''samples'' then Inl (AssertionError (AssertUnit (unit a)))
           else if num_value (frames a) \<noteq> - 1
           then Inl (AssertionError (AssertFrames (frames a)))
           else
             (case parse_audio_slice p (start a) (stop a) (channel a) of
                Inl err \<Rightarrow> Inl err
              | Inr (p', start', stop', channel') \<Rightarrow>
                  Inr (a\<lparr>path := p', start := PyInt start',
                         stop := map_option PyInt stop', channel := channel'\<rparr>))
         else Inr (a\<lparr>path := p\<rparr>))"

text \<open>
  The second block: the unit. With \<open>'seconds'\<close> the file is opened for its sample rate
  and start, frames and stop are converted, each on its own.
\<close>

definition resolve_unit :: "'a env \<Rightarrow> 'a load_args \<Rightarrow> error + 'a load_args" where
  "resolve_unit e a =
     (if unit a = ''samples'' then Inr a
      else if unit a = ''seconds'' then
        (case (case stop a of
                 None \<Rightarrow> None
               | Some s \<Rightarrow> if num_value s < 0 then Some s else None) of
           Some s \<Rightarrow> Inl (NotImplementedError (unit a) s)
         | None \<Rightarrow>
             (case sf_open e (path a) of
                None \<Rightarrow> Inl (RuntimeError (OpenFailed (path a)))
              | Some f \<Rightarrow>
                  (let sr = samplerate f;
                       start' = to_samples e (start a) sr;
                       frames' =
                         (if 0 < num_value (frames a) then to_samples e (frames a) sr
                          else frames a);
                       stop' =
                         (case stop a of
                            None \<Rightarrow> None
                          | Some s \<Rightarrow>
                              if 0 < num_value s then Some (to_samples e s sr) else Some s)
                   in Inr (a\<lparr>start := start', frames := frames', stop := stop'\<rparr>))))
      else Inl (ValueError (BadUnit (unit a))))"

text \<open>The lossy-codec branch: the whole file, its buffers concatenated.\<close>

definition decode_m4a :: "'a env \<Rightarrow> 'a load_args \<Rightarrow> error + ('a ndarray \<times> int)" where
  "decode_m4a e a =
     (if \<not> (num_value (start a) = 0 \<and> stop a = None)
      then Inl (AssertionError AssertPartialM4a)
      else
        (case audio_open e (path a) of
           None \<Rightarrow> Inl (AudioreadError (path a))
         | Some f \<Rightarrow>
             if buffers f = [] then Inl (ValueError ConcatEmpty)
             else
               Inr (\<lparr>shape = [length (concat (buffers f))], data = concat (buffers f)\<rparr>,
                    m4a_samplerate f)))"

text \<open>
  The sound-file branch. A file that does not open raises a \<open>RuntimeError\<close>, which the
  handler replaces by one that holds the output of the content probe; the probe itself
  raises when there is no file. The window is resolved from start, stop and frames.
\<close>

definition read_window :: "'a sound_file \<Rightarrow> 'a load_args \<Rightarrow> error + (nat \<times> nat)" where
  "read_window f a =
     (case prepare_read f (start a) (stop a) (frames a) of
        Inl err \<Rightarrow> Inl err
      | Inr (pos, frames') \<Rightarrow>
          (case buffer_frames f pos frames' (fill_value a) of
             Inl err \<Rightarrow> Inl err
           | Inr n \<Rightarrow> Inr (pos, n)))"

definition decode_soundfile :: "'a env \<Rightarrow> 'a load_args \<Rightarrow> error + ('a ndarray \<times> int)" where
  "decode_soundfile e a =
     (case sf_open e (path a) of
        None \<Rightarrow>
          (case magic_from_file e (path a) of
             None \<Rightarrow> Inl (FileNotFoundError (path a))
           | Some probe \<Rightarrow>
               (let msg = path a @ '': '' @ probe
                in if path_suffix (path a) = ''.wav''
                   then Inl (RuntimeError (CouldNotRead (path a) msg))
                   else Inl (RuntimeError (WrongSuffix (path_suffix (path a)) (path a) msg))))
      | Some f \<Rightarrow>
          if dtype a = None \<and> subtype f \<notin> {''PCM_16'', ''FLOAT'', ''DOUBLE''}
          then Inl (KeyError (subtype f))
          else
            (case read_window f a of
               Inl err \<Rightarrow> Inl err
             | Inr (pos, n) \<Rightarrow>
                 Inr (sf_read f pos n (fill_value a) (channel a \<noteq> None), samplerate f)))"

definition decode :: "'a env \<Rightarrow> 'a load_args \<Rightarrow> error + ('a ndarray \<times> int)" where
  "decode e a =
     (if path_suffix (path a) = ''.m4a'' then decode_m4a e a else decode_soundfile e a)"

text \<open>
  The rest of \<open>load_audio\<close>: the check of the expected sample rate, the transposition, the
  channel selection with its check for an empty result, and the return value.
\<close>

definition select_channel :: "'a ndarray \<Rightarrow> channel option \<Rightarrow> error + 'a ndarray" where
  "select_channel sig cho =
     (case cho of
        None \<Rightarrow> Inr sig
      | Some ch \<Rightarrow>
          (case shape sig of
             [c, n] \<Rightarrow>
               (case index_channel c n (data sig) ch of
                  Inl err \<Rightarrow> Inl err
                | Inr sel \<Rightarrow>
                    if size_nd sel = 0 then Inl (ValueError EmptySignal) else Inr sel)
           | _ \<Rightarrow> Inl (AssertionError (AssertNdim (shape sig) ch))))"

definition check_sample_rate :: "int option \<Rightarrow> int \<Rightarrow> error option" where
  "check_sample_rate expected sample_rate =
     (case expected of
        None \<Rightarrow> None
      | Some x \<Rightarrow>
          if x \<noteq> sample_rate then Some (ValueError (RateMismatch x sample_rate)) else None)"

definition finish :: "'a load_args \<Rightarrow> 'a ndarray \<times> int \<Rightarrow> error + 'a loaded" where
  "finish a r =
     (case r of
        (sig, sample_rate) \<Rightarrow>
          (case check_sample_rate (expected_sample_rate a) sample_rate of
             Some err \<Rightarrow> Inl err
           | None \<Rightarrow>
               (case select_channel (transpose_T sig) (channel a) of
                  Inl err \<Rightarrow> Inl err
                | Inr sel \<Rightarrow>
                    Inr (if return_sample_rate a then SignalRate sel sample_rate
                         else Signal sel))))"

text \<open>The request as the decoder gets it: the first two blocks of \<open>load_audio\<close>.\<close>

definition resolve :: "'a env \<Rightarrow> 'a load_args \<Rightarrow> error + 'a load_args" where
  "resolve e a =
     (case apply_slice e a of
        Inl err \<Rightarrow> Inl err
      | Inr a1 \<Rightarrow> resolve_unit e a1)"

definition load_audio :: "'a env \<Rightarrow> 'a load_args \<Rightarrow> error + 'a loaded" where
  "load_audio e a =
     (case resolve e a of
        Inl err \<Rightarrow> Inl err
      | Inr a2 \<Rightarrow>
          (case decode e a2 of
             Inl err \<Rightarrow> Inl err
           | Inr r \<Rightarrow> finish a2 r))"

text \<open>The message of each \<open>ValueError\<close> that \<open>load_audio\<close> raises itself.\<close>

definition value_message :: "value_info \<Rightarrow> string" where
  "value_message v =
     (case v of
        BadUnit u \<Rightarrow> u
      | BadSlice p _ \<Rightarrow> p
      | RateMismatch x sr \<Rightarrow>
          ''Requested sampling rate is '' @ show_int x @ '' but the audiofile has '' @ show_int sr
      | EmptySignal \<Rightarrow> ''Returned signal would be empty''
      | UnpackFailed \<Rightarrow> ''not enough values to unpack (expected 2, got 1)''
      | ConcatEmpty \<Rightarrow> ''need at least one array to concatenate''
      | Inhomogeneous \<Rightarrow> ''setting an array element with a sequence'')"

subsection \<open>Nested structures of paths\<close>

text \<open>
  The argument of \<open>recursive_load_audio\<close>: a leaf, a tuple, list or generator of
  arguments, or a dict of them, its items in their order.
\<close>

datatype path_tree =
    PathLeaf string
  | PathSeq "path_tree list"
  | PathDict "(string \<times> path_tree) list"

text \<open>What it returns: a result of \<open>load_audio\<close> (or a stacked array), a list, or a dict.\<close>

datatype 'a loaded_tree =
    Leaf "'a loaded"
  | LoadedSeq "'a loaded_tree list"
  | LoadedDict "(string \<times> 'a loaded_tree) list"

definition as_array :: "'a loaded_tree \<Rightarrow> 'a ndarray option" where
  "as_array t = (case t of Leaf (Signal x) \<Rightarrow> Some x | _ \<Rightarrow> None)"

fun all_arrays :: "'a loaded_tree list \<Rightarrow> 'a ndarray list option" where
  "all_arrays [] = Some []"
| "all_arrays (t # ts) =
     (case as_array t of
        None \<Rightarrow> None
      | Some x \<Rightarrow> (case all_arrays ts of None \<Rightarrow> None | Some xs \<Rightarrow> Some (x # xs)))"

definition same_shape :: "'a ndarray list \<Rightarrow> bool" where
  "same_shape xs = (case xs of [] \<Rightarrow> True | x # ys \<Rightarrow> list_all (\<lambda>y. shape y = shape x) ys)"

text \<open>Arrays of one shape under a new leading axis; no array gives the shape \<open>(0,)\<close>.\<close>

definition stack :: "'a ndarray list \<Rightarrow> 'a ndarray" where
  "stack xs =
     \<lparr>shape = length xs # (case xs of [] \<Rightarrow> [] | x # _ \<Rightarrow> shape x),
      data = concat (map data xs)\<rparr>"

datatype 'a np_array_result = Numeric "'a ndarray" | ObjectArray

text \<open>
  Modelled from the spec: \<open>np.array(data)\<close> on the loaded entries. Arrays of one shape
  are stacked into a numeric array. Anything else gives no numeric array: numpy raises
  a \<open>ValueError\<close> or builds an array of dtype \<open>object\<close>, depending on its version and on
  the entries; \<open>raises\<close> says which.
\<close>

definition np_array ::
  "('a loaded_tree list \<Rightarrow> bool) \<Rightarrow> 'a loaded_tree list \<Rightarrow> error + 'a np_array_result"
where
  "np_array raises ts =
     (case all_arrays ts of
        Some xs \<Rightarrow>
          if same_shape xs then Inr (Numeric (stack xs))
          else if raises ts then Inl (ValueError Inhomogeneous) else Inr ObjectArray
      | None \<Rightarrow> if raises ts then Inl (ValueError Inhomogeneous) else Inr ObjectArray)"

text \<open>
  \<open>recursive_load_audio\<close>. Its keyword arguments are those of \<open>load_audio\<close> without
  \<open>channel\<close>, and every leaf is loaded with the same ones. The entries of a sequence
  are loaded from left to right and the first error ends the call.
\<close>

fun recursive_load_audio ::
      "('a loaded_tree list \<Rightarrow> bool) \<Rightarrow> 'a env \<Rightarrow> 'a load_args \<Rightarrow> path_tree \<Rightarrow>
       error + 'a loaded_tree"
  and load_entries ::
      "('a loaded_tree list \<Rightarrow> bool) \<Rightarrow> 'a env \<Rightarrow> 'a load_args \<Rightarrow> path_tree list \<Rightarrow>
       error + 'a loaded_tree list"
  and load_items ::
      "('a loaded_tree list \<Rightarrow> bool) \<Rightarrow> 'a env \<Rightarrow> 'a load_args \<Rightarrow>
       (string \<times> path_tree) list \<Rightarrow> error + (string \<times> 'a loaded_tree) list"
where
  "recursive_load_audio raises e kwargs (PathLeaf p) =
     (case load_audio e (kwargs\<lparr>path := p, channel := None\<rparr>) of
        Inl err \<Rightarrow> Inl err
      | Inr r \<Rightarrow> Inr (Leaf r))"
| "recursive_load_audio raises e kwargs (PathSeq ps) =
     (case load_entries raises e kwargs ps of
        Inl err \<Rightarrow> Inl err
      | Inr ts \<Rightarrow>
          (case np_array raises ts of
             Inl (ValueError v) \<Rightarrow> Inr (LoadedSeq ts)
           | Inl err \<Rightarrow> Inl err
           | Inr (Numeric x) \<Rightarrow> Inr (Leaf (Signal x))
           | Inr ObjectArray \<Rightarrow> Inr (LoadedSeq ts)))"
| "recursive_load_audio raises e kwargs (PathDict kvs) =
     (case load_items raises e kwargs kvs of
        Inl err \<Rightarrow> Inl err
      | Inr items \<Rightarrow> Inr (LoadedDict items))"
| "load_entries raises e kwargs [] = Inr []"
| "load_entries raises e kwargs (p # ps) =
     (case recursive_load_audio raises e kwargs p of
        Inl err \<Rightarrow> Inl err
      | Inr t \<Rightarrow>
          (case load_entries raises e kwargs ps of
             Inl err \<Rightarrow> Inl err
           | Inr ts \<Rightarrow> Inr (t # ts)))"
| "load_items raises e kwargs [] = Inr []"
| "load_items raises e kwargs ((k, p) # kvs) =
     (case recursive_load_audio raises e kwargs p of
        Inl err \<Rightarrow> Inl err
      | Inr t \<Rightarrow>
          (case load_items raises e kwargs kvs of
             Inl err \<Rightarrow> Inl err
           | Inr items \<Rightarrow> Inr ((k, t) # items)))"

subsection \<open>Slice annotations as text\<close>

text \<open>
  The annotations \<open>[start:stop]\<close>, \<open>[start:stop,index]\<close> and \<open>[start:stop,lo:hi]\<close> as
  texts, each number a non-empty run of digits or left out. They are written down on
  their own, not read off the parser.
\<close>

definition is_number :: "string \<Rightarrow> bool" where
  "is_number ds = (ds \<noteq> [] \<and> list_all is_digit ds)"

definition valid_opt :: "string option \<Rightarrow> bool" where
  "valid_opt x = (case x of None \<Rightarrow> True | Some ds \<Rightarrow> is_number ds)"

definition render_opt :: "string option \<Rightarrow> string" where
  "render_opt x = (case x of None \<Rightarrow> [] | Some ds \<Rightarrow> ds)"

datatype channel_text =
    NoChannel
  | BareIndex "string option"
  | ChannelRange "string option" "string option"

definition valid_channel_text :: "channel_text \<Rightarrow> bool" where
  "valid_channel_text c =
     (case c of
        NoChannel \<Rightarrow> True
      | BareIndex d \<Rightarrow> valid_opt d
      | ChannelRange lo hi \<Rightarrow> valid_opt lo \<and> valid_opt hi)"

definition render_channel :: "channel_text \<Rightarrow> string" where
  "render_channel c =
     (case c of
        NoChannel \<Rightarrow> []
      | BareIndex d \<Rightarrow> '','' @ render_opt d
      | ChannelRange lo hi \<Rightarrow> '','' @ render_opt lo @ '':'' @ render_opt hi)"

definition render_annotation :: "string option \<Rightarrow> string option \<Rightarrow> channel_text \<Rightarrow> string" where
  "render_annotation a b c =
     ''['' @ render_opt a @ '':'' @ render_opt b @ render_channel c @ '']''"

text \<open>What the conversion of the parser makes of the digits of an annotation.\<close>

definition converted_channel :: "channel_text \<Rightarrow> channel option" where
  "converted_channel c =
     (case c of
        NoChannel \<Rightarrow> None
      | BareIndex None \<Rightarrow> None
      | BareIndex (Some d) \<Rightarrow> Some (Index (int_py d))
      | ChannelRange None None \<Rightarrow> None
      | ChannelRange lo hi \<Rightarrow> Some (Slice (map_option int_py lo) (map_option int_py hi)))"

definition converted_start :: "string option \<Rightarrow> int" where
  "converted_start a = (case a of None \<Rightarrow> 0 | Some ds \<Rightarrow> int_py ds)"

subsection \<open>Slice annotations as numbers\<close>

text \<open>
  A number in an annotation: a natural number \<open>m\<close> in decimal digits after \<open>k\<close> leading
  zeros. Every non-empty run of digits is the text of one such number.
\<close>

datatype number_text = NumberText nat nat

definition number_value :: "number_text \<Rightarrow> nat" where
  "number_value n = (case n of NumberText k m \<Rightarrow> m)"

definition number_digits :: "number_text \<Rightarrow> string" where
  "number_digits n = (case n of NumberText k m \<Rightarrow> replicate k (CHR ''0'') @ show_nat m)"

text \<open>
  The part of an annotation after the sample range: nothing, a comma with a bare index
  (or with nothing after it), or a comma with a range of channels.
\<close>

datatype channel_numbers =
    NoSelection
  | OneChannel "number_text option"
  | ChannelsFromTo "number_text option" "number_text option"

definition channel_digits :: "channel_numbers \<Rightarrow> channel_text" where
  "channel_digits c =
     (case c of
        NoSelection \<Rightarrow> NoChannel
      | OneChannel d \<Rightarrow> BareIndex (map_option number_digits d)
      | ChannelsFromTo lo hi \<Rightarrow>
          ChannelRange (map_option number_digits lo) (map_option number_digits hi))"

definition annotation_text ::
  "number_text option \<Rightarrow> number_text option \<Rightarrow> channel_numbers \<Rightarrow> string"
where
  "annotation_text a b c =
     render_annotation (map_option number_digits a) (map_option number_digits b)
       (channel_digits c)"

text \<open>
  What an annotation encodes by section 4.1 of the specification: the start, 0 when it
  is left out; the stop, absent when it is left out; a bare index as that index, a range
  with a bound as the half-open range, and no selection otherwise.
\<close>

definition encoded_start :: "number_text option \<Rightarrow> int" where
  "encoded_start a = (case a of None \<Rightarrow> 0 | Some n \<Rightarrow> int (number_value n))"

definition encoded_stop :: "number_text option \<Rightarrow> int option" where
  "encoded_stop b = (case b of None \<Rightarrow> None | Some n \<Rightarrow> Some (int (number_value n)))"

definition encoded_bound :: "number_text option \<Rightarrow> int option" where
  "encoded_bound b = (case b of None \<Rightarrow> None | Some n \<Rightarrow> Some (int (number_value n)))"

definition encoded_channel :: "channel_numbers \<Rightarrow> channel option" where
  "encoded_channel c =
     (case c of
        NoSelection \<Rightarrow> None
      | OneChannel None \<Rightarrow> None
      | OneChannel (Some n) \<Rightarrow> Some (Index (int (number_value n)))
      | ChannelsFromTo None None \<Rightarrow> None
      | ChannelsFromTo lo hi \<Rightarrow> Some (Slice (encoded_bound lo) (encoded_bound hi)))"

text \<open>A text that begins with a colon.\<close>

definition starts_colon :: "string \<Rightarrow> bool" where
  "starts_colon s = (case s of [] \<Rightarrow> False | c # _ \<Rightarrow> c = CHR '':'')"

subsection \<open>Example files\<close>

text \<open>
  A file of two channels and three frames, a file of one channel and four frames, and a
  lossy-codec file of two samples, with samples written as integers. The float
  product of the example environment is the exact one: the examples multiply numbers
  whose product is a double.
\<close>

definition stereo_file :: "int sound_file" where
  "stereo_file =
     \<lparr>samplerate = 16000, channels = 2, subtype = ''PCM_16'',
      frames_data = [[1, 2], [3, 4], [5, 6]]\<rparr>"

definition mono_file :: "int sound_file" where
  "mono_file =
     \<lparr>samplerate = 8, channels = 1, subtype = ''PCM_16'',
      frames_data = [[1], [3], [5], [7]]\<rparr>"

definition lossy_file :: "int m4a_file" where
  "lossy_file = \<lparr>m4a_samplerate = 44100, m4a_channels = 1, buffers = [[1], [2]]\<rparr>"

text \<open>
  A lossy-codec file of two channels and two frames: the first channel holds 1 and 3,
  the second one 2 and 4.
\<close>

definition duet_file :: "int m4a_file" where
  "duet_file = \<lparr>m4a_samplerate = 44100, m4a_channels = 2, buffers = [[1, 2], [3, 4]]\<rparr>"

definition example_env :: "int env" where
  "example_env =
     \<lparr>normalize_path = (\<lambda>p. p),
      sf_open =
        (\<lambda>p. if p = ''stereo.wav'' then Some stereo_file
             else if p = ''mono.wav'' then Some mono_file
             else None),
      audio_open =
        (\<lambda>p. if p = ''song.m4a'' then Some lossy_file
             else if p = ''duet.m4a'' then Some duet_file
             else None),
      magic_from_file = (\<lambda>p. Some ''data''),
      float_product = (\<lambda>x n. x * of_int n)\<rparr>"

section \<open>Properties\<close>


subsection \<open>Numbers\<close>

lemma num_value_simps [simp]:
  "num_value (PyInt i) = of_int i" "num_value (PyFloat x) = x"
  by (simp_all add: num_value_def)

lemma as_index_simps [simp]:
  "as_index (PyInt i) = Some i" "as_index (PyFloat x) = None"
  by (simp_all add: as_index_def)

subsection \<open>The parser on every annotation of the grammar\<close>

lemma is_digit_simps: "\<not> is_digit (CHR '':'')" "\<not> is_digit (CHR '']'')" "\<not> is_digit (CHR '','')"
  "\<not> is_digit (CHR '' '')" "\<not> is_digit (CHR ''['')"
  by (simp_all add: is_digit_def)

lemma opt_digits_render:
  assumes "valid_opt a" and "t \<noteq> []" and "\<not> is_digit (hd t)"
  shows "opt_digits (render_opt a @ t) = (a, t)"
proof (cases a)
  case None
  with assms show ?thesis
    by (cases t) (simp_all add: opt_digits_def render_opt_def)
next
  case (Some ds)
  with assms have ds: "ds \<noteq> []" "\<forall>x\<in>set ds. is_digit x"
    by (simp_all add: valid_opt_def is_number_def list_all_iff)
  from assms(2,3) have t: "takeWhile is_digit t = []" "dropWhile is_digit t = t"
    by (cases t; simp)+
  have "takeWhile is_digit (ds @ t) = ds" "dropWhile is_digit (ds @ t) = t"
    using ds t by simp_all
  with Some ds show ?thesis
    by (simp add: opt_digits_def render_opt_def)
qed

lemma match_channel_part_render:
  assumes "valid_channel_text c"
  shows "match_channel_part (render_channel c @ '']'') =
    Some (case c of NoChannel \<Rightarrow> (None, None, None) | BareIndex d \<Rightarrow> (None, None, d)
          | ChannelRange lo hi \<Rightarrow> (lo, hi, None))"
proof (cases c)
  case NoChannel
  then show ?thesis by (simp add: match_channel_part_def render_channel_def expect_def)
next
  case (BareIndex d)
  with assms have "valid_opt d" by (simp add: valid_channel_text_def)
  then have "opt_digits (render_opt d @ '']'') = (d, '']'')"
    by (intro opt_digits_render) (simp_all add: is_digit_simps)
  with BareIndex show ?thesis
    by (simp add: match_channel_part_def render_channel_def expect_def
        match_channel_range_def match_channel_index_def)
next
  case (ChannelRange lo hi)
  with assms have v: "valid_opt lo" "valid_opt hi" by (simp_all add: valid_channel_text_def)
  have 1: "opt_digits (render_opt lo @ CHR '':'' # render_opt hi @ '']'') = (lo, CHR '':'' # render_opt hi @ '']'')"
    using v(1) by (intro opt_digits_render) (simp_all add: is_digit_simps)
  have 2: "opt_digits (render_opt hi @ '']'') = (hi, '']'')"
    using v(2) by (intro opt_digits_render) (simp_all add: is_digit_simps)
  from ChannelRange 1 2 show ?thesis
    by (simp add: match_channel_part_def render_channel_def expect_def
        match_channel_range_def)
qed

lemma render_channel_nondigit:
  "render_channel c @ '']'' \<noteq> [] \<and> \<not> is_digit (hd (render_channel c @ '']''))"
  by (cases c) (simp_all add: render_channel_def is_digit_simps)

lemma fullmatch_render:
  assumes "valid_opt a" "valid_opt b" "valid_channel_text c"
  shows "fullmatch_PATTERN (render_annotation a b c) =
    Some (case c of NoChannel \<Rightarrow> (a, b, None, None, None) | BareIndex d \<Rightarrow> (a, b, None, None, d)
          | ChannelRange lo hi \<Rightarrow> (a, b, lo, hi, None))"
proof -
  have 1: "opt_digits (render_opt a @ CHR '':'' # render_opt b @ render_channel c @ '']'')
      = (a, CHR '':'' # render_opt b @ render_channel c @ '']'')"
    using assms(1) by (intro opt_digits_render) (simp_all add: is_digit_simps)
  have 2: "opt_digits (render_opt b @ render_channel c @ '']'') = (b, render_channel c @ '']'')"
    using assms(2) render_channel_nondigit[of c] by (intro opt_digits_render) simp_all
  show ?thesis
    using 1 2 match_channel_part_render[OF assms(3)]
    by (cases c) (simp_all add: fullmatch_PATTERN_def render_annotation_def expect_def)
qed

lemma rsplit_dcolon_None_iff: "rsplit_dcolon s = None \<longleftrightarrow> \<not> contains_dcolon s"
  by (induction s rule: contains_dcolon.induct) (auto split: option.splits list.splits)

lemma contains_dcolon_Cons:
  "contains_dcolon (c # s) = ((c = CHR '':'' \<and> starts_colon s) \<or> contains_dcolon s)"
  by (cases s) (simp_all add: starts_colon_def)

lemma rsplit_dcolon_append:
  assumes "\<not> contains_dcolon s" and "\<not> starts_colon s"
  shows "rsplit_dcolon (p @ ''::'' @ s) = Some (p, s)"
proof (induction p)
  case Nil
  from assms have "rsplit_dcolon s = None" by (simp add: rsplit_dcolon_None_iff)
  with assms(2) have "rsplit_dcolon (CHR '':'' # s) = None"
    by (cases s) (simp_all add: starts_colon_def)
  then show ?case by simp
next
  case (Cons c p)
  then show ?case by simp
qed

lemma starts_colon_simps:
  "starts_colon [] = False" "starts_colon (c # s) = (c = CHR '':'')"
  by (simp_all add: starts_colon_def)

lemma is_digit_not_special:
  "is_digit c \<Longrightarrow> c \<noteq> CHR '':'' \<and> c \<noteq> CHR '' ''"
  by (auto simp: is_digit_def)

lemma contains_dcolon_digits:
  "list_all is_digit ds \<Longrightarrow> contains_dcolon (ds @ s) = contains_dcolon s"
  by (induction ds) (auto simp: contains_dcolon_Cons dest: is_digit_not_special)

lemma starts_colon_render_opt:
  "valid_opt a \<Longrightarrow> starts_colon (render_opt a @ s) = (a = None \<and> starts_colon s)"
  by (cases a; cases "the a")
     (auto simp: render_opt_def valid_opt_def is_number_def starts_colon_simps
           dest: is_digit_not_special)

lemma contains_dcolon_render_opt:
  "valid_opt a \<Longrightarrow> contains_dcolon (render_opt a @ s) = contains_dcolon s"
  by (cases a) (simp_all add: render_opt_def valid_opt_def is_number_def contains_dcolon_digits)

lemma space_render_opt: "valid_opt a \<Longrightarrow> CHR '' '' \<notin> set (render_opt a)"
  by (cases a) (auto simp: render_opt_def valid_opt_def is_number_def list_all_iff
      dest: is_digit_not_special)

lemma render_annotation_no_dcolon:
  assumes "valid_opt a" "valid_opt b" "valid_channel_text c"
  shows "\<not> contains_dcolon (render_annotation a b c)"
    and "\<not> starts_colon (render_annotation a b c)"
    and "CHR '' '' \<notin> set (render_annotation a b c)"
proof -
  show "\<not> starts_colon (render_annotation a b c)"
    by (simp add: render_annotation_def starts_colon_simps)
  show "CHR '' '' \<notin> set (render_annotation a b c)"
    using assms
    by (cases c) (simp_all add: render_annotation_def render_channel_def valid_channel_text_def
        space_render_opt)
  show "\<not> contains_dcolon (render_annotation a b c)"
    using assms
    by (cases c)
       (simp_all add: render_annotation_def render_channel_def valid_channel_text_def
          contains_dcolon_Cons contains_dcolon_render_opt starts_colon_render_opt
          starts_colon_simps)
qed

lemma opt_digits_split:
  assumes "opt_digits r = (g, r')"
  shows "valid_opt g \<and> r = render_opt g @ r'"
proof -
  have d: "list_all is_digit (takeWhile is_digit r)"
    by (simp add: list_all_iff) (meson set_takeWhileD)
  have j: "takeWhile is_digit r @ dropWhile is_digit r = r"
    by (rule takeWhile_dropWhile_id)
  show ?thesis
  proof (cases "takeWhile is_digit r = []")
    case True
    with j have "dropWhile is_digit r = r" by simp
    with True assms show ?thesis
      by (auto simp: opt_digits_def Let_def valid_opt_def render_opt_def)
  next
    case False
    with assms d j show ?thesis
      by (auto simp: opt_digits_def Let_def valid_opt_def render_opt_def is_number_def)
  qed
qed

lemma expect_Some: "expect c s = Some r \<Longrightarrow> s = c # r"
  by (auto simp: expect_def split: list.splits if_splits)

lemma match_channel_part_complete:
  assumes "match_channel_part r = Some (g3, g4, g5)"
  shows "\<exists>c. valid_channel_text c \<and> r = render_channel c @ '']''"
proof (cases "expect (CHR '','') r")
  case None
  with assms have "r = '']''"
    by (auto simp: match_channel_part_def split: if_splits)
  then have "valid_channel_text NoChannel \<and> r = render_channel NoChannel @ '']''"
    by (simp add: valid_channel_text_def render_channel_def)
  then show ?thesis by blast
next
  case (Some r1)
  then have r: "r = CHR '','' # r1" by (rule expect_Some)
  show ?thesis
  proof (cases "match_channel_range r1")
    case None
    with assms Some have "match_channel_index r1 = Some (g3, g4, g5)"
      by (simp add: match_channel_part_def)
    then obtain d where "opt_digits r1 = (d, '']'')"
      by (auto simp: match_channel_index_def split: prod.splits if_splits)
    from opt_digits_split[OF this] r
    have "valid_channel_text (BareIndex d) \<and> r = render_channel (BareIndex d) @ '']''"
      by (simp add: valid_channel_text_def render_channel_def)
    then show ?thesis by blast
  next
    case (Some g)
    then obtain lo r2 r3 hi where 1: "opt_digits r1 = (lo, r2)" and 2: "expect (CHR '':'') r2 = Some r3"
      and 3: "opt_digits r3 = (hi, '']'')"
      by (auto simp: match_channel_range_def split: prod.splits option.splits if_splits)
    from opt_digits_split[OF 1] opt_digits_split[OF 3] expect_Some[OF 2] r
    have "valid_channel_text (ChannelRange lo hi) \<and> r = render_channel (ChannelRange lo hi) @ '']''"
      by (simp add: valid_channel_text_def render_channel_def)
    then show ?thesis by blast
  qed
qed

text \<open>Every text that the pattern matches is an annotation of the grammar.\<close>

lemma fullmatch_PATTERN_complete:
  assumes "fullmatch_PATTERN s = Some g"
  shows "\<exists>a b c. valid_opt a \<and> valid_opt b \<and> valid_channel_text c \<and> s = render_annotation a b c"
proof -
  from assms obtain r0 a r1 r2 b r3 g3 g4 g5 where
    0: "expect (CHR ''['') s = Some r0" and 1: "opt_digits r0 = (a, r1)"
    and 2: "expect (CHR '':'') r1 = Some r2" and 3: "opt_digits r2 = (b, r3)"
    and 4: "match_channel_part r3 = Some (g3, g4, g5)"
    by (auto simp: fullmatch_PATTERN_def split: option.splits prod.splits)
  from match_channel_part_complete[OF 4] obtain c where
    c: "valid_channel_text c" "r3 = render_channel c @ '']''" by blast
  from expect_Some[OF 0] opt_digits_split[OF 1] expect_Some[OF 2] opt_digits_split[OF 3] c
  have "valid_opt a \<and> valid_opt b \<and> valid_channel_text c \<and> s = render_annotation a b c"
    by (simp add: render_annotation_def)
  then show ?thesis by blast
qed

lemma int_py_snoc: "int_py (xs @ [c]) = 10 * int_py xs + digit_value c"
  by (simp add: int_py_def)

lemma digit_char_value: "d < 10 \<Longrightarrow> digit_value (digit_char d) = int d \<and> is_digit (digit_char d)"
proof -
  assume "d < 10"
  then have "d \<in> {0, 1, 2, 3, 4, 5, 6, 7, 8, 9}" by auto
  then show ?thesis
    by (auto simp: digit_value_def digit_char_def is_digit_def)
qed

text \<open>\<open>int\<close> reads a number back from its decimal digits.\<close>

lemma int_py_show_nat: "int_py (show_nat n) = int n \<and> is_number (show_nat n)"
proof (induction n rule: show_nat.induct)
  case (1 n)
  show ?case
  proof (cases "n < 10")
    case True
    then show ?thesis
      using digit_char_value[of n]
      by (simp add: show_nat.simps[of n] int_py_def is_number_def)
  next
    case False
    with 1 have ih: "int_py (show_nat (n div 10)) = int (n div 10)"
      "is_number (show_nat (n div 10))" by simp_all
    have d: "digit_value (digit_char (n mod 10)) = int (n mod 10)" "is_digit (digit_char (n mod 10))"
      using digit_char_value[of "n mod 10"] by simp_all
    have "int_py (show_nat n) = 10 * int (n div 10) + int (n mod 10)"
      using False ih(1) d(1) by (simp add: show_nat.simps[of n] int_py_snoc)
    also have "\<dots> = int n" by presburger
    finally have "int_py (show_nat n) = int n" .
    moreover have "is_number (show_nat n)"
      using False ih(2) d(2) by (simp add: show_nat.simps[of n] is_number_def)
    ultimately show ?thesis by simp
  qed
qed

lemma parse_audio_slice_digits:
  assumes "valid_opt a" and "valid_opt b" and "valid_channel_text c"
  shows "parse_audio_slice (p @ ''::'' @ render_annotation a b c) (PyInt 0) None None =
    Inr (p, converted_start a, map_option int_py b, converted_channel c)"
proof -
  note nd = render_annotation_no_dcolon[OF assms]
  have split: "rsplit_dcolon (p @ ''::'' @ render_annotation a b c) = Some (p, render_annotation a b c)"
    using nd(1,2) by (rule rsplit_dcolon_append)
  show ?thesis
    using split nd(3) fullmatch_render[OF assms]
    by (cases c; cases a; cases b)
       (auto simp: parse_audio_slice_def converted_start_def converted_channel_def num_value_def
          split: option.splits)
qed

subsection \<open>The numbers of an annotation\<close>

lemma int_py_zeros: "int_py (replicate k (CHR ''0'') @ s) = int_py s"
proof -
  have "foldl (\<lambda>a c. 10 * a + digit_value c) 0 (replicate k (CHR ''0'')) = 0"
    by (induction k) (simp_all add: digit_value_def)
  then show ?thesis by (simp add: int_py_def)
qed

lemma is_number_zeros:
  assumes "is_number s"
  shows "is_number (replicate k (CHR ''0'') @ s)"
proof -
  have z: "is_digit (CHR ''0'')" by (simp add: is_digit_def)
  have "list_all is_digit (replicate k (CHR ''0''))"
    by (induction k) (simp_all add: z)
  with assms show ?thesis by (simp add: is_number_def)
qed

text \<open>The conversion of the parser reads the value of every number text.\<close>

lemma int_py_number_digits:
  "int_py (number_digits n) = int (number_value n) \<and> is_number (number_digits n)"
  by (cases n) (simp add: number_digits_def number_value_def int_py_zeros is_number_zeros
      int_py_show_nat)

lemma digit_char_of_value:
  assumes "is_digit c"
  shows "digit_char (nat (digit_value c)) = c \<and> 0 \<le> digit_value c \<and> digit_value c < 10"
  using assms by (auto simp: is_digit_def digit_value_def digit_char_def)

text \<open>Every non-empty run of digits is the text of a number.\<close>

lemma is_number_number_digits:
  assumes "is_number ds"
  shows "\<exists>n. ds = number_digits n"
proof -
  from assms have ne: "ds \<noteq> []" and dg: "list_all is_digit ds"
    by (simp_all add: is_number_def)
  have "list_all is_digit ds \<longrightarrow>
      (\<exists>k m. ds = replicate k (CHR ''0'') @ show_nat m)"
    using ne
  proof (induction ds rule: rev_nonempty_induct)
    case (single c)
    show ?case
    proof
      assume "list_all is_digit [c]"
      then have c: "is_digit c" by simp
      from digit_char_of_value[OF c]
      have "digit_char (nat (digit_value c)) = c" "nat (digit_value c) < 10" by auto
      then have "show_nat (nat (digit_value c)) = [c]"
        by (simp add: show_nat.simps[of "nat (digit_value c)"])
      then have "[c] = replicate 0 (CHR ''0'') @ show_nat (nat (digit_value c))" by simp
      then show "\<exists>k m. [c] = replicate k (CHR ''0'') @ show_nat m" by blast
    qed
  next
    case (snoc c xs)
    show ?case
    proof
      assume all: "list_all is_digit (xs @ [c])"
      then have c: "is_digit c" and "list_all is_digit xs" by simp_all
      with snoc.IH obtain k m where xs: "xs = replicate k (CHR ''0'') @ show_nat m" by blast
      let ?d = "nat (digit_value c)"
      from digit_char_of_value[OF c] have d: "digit_char ?d = c" "?d < 10" by auto
      show "\<exists>k m. xs @ [c] = replicate k (CHR ''0'') @ show_nat m"
      proof (cases "m = 0")
        case True
        have "show_nat 0 = [CHR ''0'']"
          by (simp add: show_nat.simps[of 0] digit_char_def)
        with xs True have "xs = replicate (Suc k) (CHR ''0'')"
          by (simp add: replicate_append_same)
        moreover have "show_nat ?d = [c]"
          using d by (simp add: show_nat.simps[of ?d])
        ultimately have "xs @ [c] = replicate (Suc k) (CHR ''0'') @ show_nat ?d" by simp
        then show ?thesis by blast
      next
        case False
        then have "\<not> 10 * m + ?d < 10" by simp
        moreover have "(10 * m + ?d) div 10 = m" "(10 * m + ?d) mod 10 = ?d"
          using d(2) by simp_all
        ultimately have "show_nat (10 * m + ?d) = show_nat m @ [c]"
          using d(1) by (simp add: show_nat.simps[of "10 * m + ?d"])
        with xs have "xs @ [c] = replicate k (CHR ''0'') @ show_nat (10 * m + ?d)" by simp
        then show ?thesis by blast
      qed
    qed
  qed
  with dg obtain k m where "ds = replicate k (CHR ''0'') @ show_nat m" by blast
  then have "ds = number_digits (NumberText k m)" by (simp add: number_digits_def)
  then show ?thesis by blast
qed

lemma valid_opt_number_digits:
  assumes "valid_opt x"
  shows "\<exists>a. x = map_option number_digits a"
proof (cases x)
  case None
  then have "x = map_option number_digits None" by simp
  then show ?thesis by blast
next
  case (Some ds)
  with assms have "is_number ds" by (simp add: valid_opt_def)
  from is_number_number_digits[OF this] obtain n where "ds = number_digits n" by blast
  with Some have "x = map_option number_digits (Some n)" by simp
  then show ?thesis by blast
qed

lemma valid_map_number_digits: "valid_opt (map_option number_digits a)"
  by (cases a) (simp_all add: valid_opt_def int_py_number_digits)

lemma valid_channel_digits: "valid_channel_text (channel_digits c)"
  by (cases c) (simp_all add: valid_channel_text_def channel_digits_def valid_map_number_digits)

text \<open>
  Every text that the pattern of the source matches is the text of an annotation in
  numbers: the claim below is about all valid annotations.
\<close>

lemma fullmatch_PATTERN_annotation_text:
  assumes "fullmatch_PATTERN s = Some g"
  shows "\<exists>a b c. s = annotation_text a b c"
proof -
  from fullmatch_PATTERN_complete[OF assms] obtain x y z where
    v: "valid_opt x" "valid_opt y" "valid_channel_text z" and s: "s = render_annotation x y z"
    by blast
  from valid_opt_number_digits[OF v(1)] obtain a where a: "x = map_option number_digits a" by blast
  from valid_opt_number_digits[OF v(2)] obtain b where b: "y = map_option number_digits b" by blast
  have "\<exists>c. z = channel_digits c"
  proof (cases z)
    case NoChannel
    then have "z = channel_digits NoSelection" by (simp add: channel_digits_def)
    then show ?thesis by blast
  next
    case (BareIndex d)
    with v(3) have "valid_opt d" by (simp add: valid_channel_text_def)
    from valid_opt_number_digits[OF this] obtain d' where "d = map_option number_digits d'" by blast
    with BareIndex have "z = channel_digits (OneChannel d')" by (simp add: channel_digits_def)
    then show ?thesis by blast
  next
    case (ChannelRange lo hi)
    with v(3) have "valid_opt lo" "valid_opt hi" by (simp_all add: valid_channel_text_def)
    from valid_opt_number_digits[OF this(1)] valid_opt_number_digits[OF this(2)]
    obtain lo' hi' where "lo = map_option number_digits lo'" "hi = map_option number_digits hi'"
      by blast
    with ChannelRange have "z = channel_digits (ChannelsFromTo lo' hi')"
      by (simp add: channel_digits_def)
    then show ?thesis by blast
  qed
  then obtain c where "z = channel_digits c" by blast
  with s a b have "s = annotation_text a b c" by (simp add: annotation_text_def)
  then show ?thesis by blast
qed

lemma converted_encoded:
  "converted_start (map_option number_digits a) = encoded_start a"
  "map_option int_py (map_option number_digits b) = encoded_stop b"
  "converted_channel (channel_digits c) = encoded_channel c"
proof -
  show "converted_start (map_option number_digits a) = encoded_start a"
    by (cases a) (simp_all add: converted_start_def encoded_start_def int_py_number_digits)
  show "map_option int_py (map_option number_digits b) = encoded_stop b"
    by (cases b) (simp_all add: encoded_stop_def int_py_number_digits)
  have bound: "map_option int_py (map_option number_digits x) = encoded_bound x" for x
    by (cases x) (simp_all add: encoded_bound_def int_py_number_digits)
  show "converted_channel (channel_digits c) = encoded_channel c"
  proof (cases c)
    case NoSelection
    then show ?thesis by (simp add: converted_channel_def channel_digits_def encoded_channel_def)
  next
    case (OneChannel d)
    then show ?thesis
      by (cases d)
         (simp_all add: converted_channel_def channel_digits_def encoded_channel_def
            int_py_number_digits)
  next
    case (ChannelsFromTo lo hi)
    then show ?thesis
      using bound[of lo] bound[of hi]
      by (cases lo; cases hi)
         (simp_all add: converted_channel_def channel_digits_def encoded_channel_def)
  qed
qed

text \<open>
  Claim C1. For every path \<open>p\<close> and every annotation, its numbers any natural numbers
  written in decimal digits with or without leading zeros, parsing \<open>p::annotation\<close>
  with the default arguments returns \<open>p\<close> and the numbers themselves: the start, or 0
  when it is left out; the stop, or nothing when it is left out; a bare integer after
  the comma as a single channel index; a range after the comma as a half-open channel
  range (no selection when both of its bounds are left out). The path is recovered
  whatever it holds, also further \<open>::\<close>.
\<close>

theorem parse_audio_slice_roundtrip:
  "parse_audio_slice (p @ ''::'' @ annotation_text a b c) (PyInt 0) None None =
     Inr (p, encoded_start a, encoded_stop b, encoded_channel c)"
  using parse_audio_slice_digits[of "map_option number_digits a" "map_option number_digits b"
      "channel_digits c" p, OF valid_map_number_digits valid_map_number_digits
      valid_channel_digits]
  by (simp add: annotation_text_def converted_encoded)

text \<open>
  The example of the specification, \<open>f.wav::[8000:16000,0]\<close>, and the range
  \<open>f.wav::[007:,:2]\<close>.
\<close>

theorem parse_audio_slice_roundtrip_witness:
  "annotation_text (Some (NumberText 0 8000)) (Some (NumberText 0 16000))
       (OneChannel (Some (NumberText 0 0))) = ''[8000:16000,0]''
   \<and> parse_audio_slice ''f.wav::[8000:16000,0]'' (PyInt 0) None None
       = Inr (''f.wav'', 8000, Some 16000, Some (Index 0))
   \<and> annotation_text (Some (NumberText 2 7)) None (ChannelsFromTo None (Some (NumberText 0 2)))
       = ''[007:,:2]''
   \<and> parse_audio_slice ''f.wav::[007:,:2]'' (PyInt 0) None None
       = Inr (''f.wav'', 7, None, Some (Slice None (Some 2)))"
proof -
  have s: "show_nat 8000 = ''8000''" "show_nat 16000 = ''16000''" "show_nat 0 = ''0''"
    "show_nat 7 = ''7''" "show_nat 2 = ''2''"
    by (simp_all add: show_nat.simps digit_char_def)
  have z: "replicate 2 (CHR ''0'') = ''00''"
    by (simp add: numeral_2_eq_2)
  have t: "annotation_text (Some (NumberText 0 8000)) (Some (NumberText 0 16000))
       (OneChannel (Some (NumberText 0 0))) = ''[8000:16000,0]''"
    "annotation_text (Some (NumberText 2 7)) None (ChannelsFromTo None (Some (NumberText 0 2)))
       = ''[007:,:2]''"
    by (simp_all add: annotation_text_def render_annotation_def render_opt_def render_channel_def
        channel_digits_def number_digits_def s z)
  from parse_audio_slice_roundtrip[of "''f.wav''" "Some (NumberText 0 8000)"
      "Some (NumberText 0 16000)" "OneChannel (Some (NumberText 0 0))"]
    parse_audio_slice_roundtrip[of "''f.wav''" "Some (NumberText 2 7)" None
      "ChannelsFromTo None (Some (NumberText 0 2))"]
  show ?thesis
    by (simp add: t encoded_start_def encoded_stop_def encoded_channel_def encoded_bound_def
        number_value_def)
qed

subsection \<open>The annotation and the explicit parameters exclude each other\<close>

lemma parse_audio_slice_asserts:
  assumes "num_value x \<noteq> 0 \<or> y \<noteq> None \<or> c \<noteq> None"
  shows "\<exists>info. parse_audio_slice p x y c = Inl (AssertionError info)"
  using assms by (auto simp: parse_audio_slice_def split: option.splits)

text \<open>
  Claim C4. When the normalised path holds \<open>::\<close> and one of start, stop, channel is not
  at its default, or frames is not \<open>-1\<close>, or the unit is not \<open>'samples'\<close>, \<open>load_audio\<close>
  fails with an assertion error, and with the same one whatever the files, the decoders
  and the content probe are: no file is opened before it.
\<close>

theorem load_audio_annotation_excludes_parameters:
  assumes "contains_dcolon (normalize_path e (path a))"
    and "num_value (start a) \<noteq> 0 \<or> stop a \<noteq> None \<or> channel a \<noteq> None
         \<or> num_value (frames a) \<noteq> - 1 \<or> unit a \<noteq> ''samples''"
  shows "\<exists>info. \<forall>files lossy probe product.
           load_audio
             (e\<lparr>sf_open := files, audio_open := lossy, magic_from_file := probe,
                float_product := product\<rparr>) a
             = Inl (AssertionError info)"
proof -
  have *: "\<exists>info. apply_slice e' a = Inl (AssertionError info)"
    if "normalize_path e' = normalize_path e" for e' :: "'a env"
  proof (cases "unit a \<noteq> ''samples'' \<or> num_value (frames a) \<noteq> - 1")
    case True
    with assms(1) that show ?thesis by (auto simp: apply_slice_def)
  next
    case False
    with assms(2) have "num_value (start a) \<noteq> 0 \<or> stop a \<noteq> None \<or> channel a \<noteq> None"
      by blast
    from parse_audio_slice_asserts[OF this] obtain info where
      "parse_audio_slice (normalize_path e (path a)) (start a) (stop a) (channel a)
         = Inl (AssertionError info)" by blast
    with False assms(1) that show ?thesis by (simp add: apply_slice_def)
  qed
  from *[of e] obtain info where i: "apply_slice e a = Inl (AssertionError info)" by auto
  have "apply_slice
          (e\<lparr>sf_open := files, audio_open := lossy, magic_from_file := probe,
             float_product := product\<rparr>) a
      = apply_slice e a" for files lossy probe product
    by (simp add: apply_slice_def)
  with i show ?thesis
    by (auto simp: load_audio_def resolve_def)
qed

text \<open>An annotated path with \<open>frames=2\<close>.\<close>

theorem load_audio_annotation_excludes_parameters_witness:
  "contains_dcolon
     (normalize_path example_env
        (path ((default_args ''stereo.wav::[1:2]'')\<lparr>frames := PyInt 2\<rparr>)))
   \<and> num_value (frames ((default_args ''stereo.wav::[1:2]'')\<lparr>frames := PyInt 2\<rparr> :: int load_args))
       \<noteq> - 1
   \<and> (\<exists>info. \<forall>files lossy probe product.
           load_audio
             (example_env\<lparr>sf_open := files, audio_open := lossy, magic_from_file := probe,
                float_product := product\<rparr>)
             ((default_args ''stereo.wav::[1:2]'')\<lparr>frames := PyInt 2\<rparr>)
             = Inl (AssertionError info))"
  using load_audio_annotation_excludes_parameters[of example_env
      "(default_args ''stereo.wav::[1:2]'')\<lparr>frames := PyInt 2\<rparr>"]
  by (simp add: example_env_def default_args_def num_value_def)

subsection \<open>Malformed annotations\<close>

lemma apply_slice_malformed:
  assumes "rsplit_dcolon (normalize_path e (path a)) = Some (pre, ann)"
    and "num_value (start a) = 0" "stop a = None" "channel a = None"
    and "num_value (frames a) = - 1" "unit a = ''samples''"
  shows "CHR '' '' \<in> set ann \<Longrightarrow> apply_slice e a = Inl (AssertionError (AssertNoSpace ann))"
    and "CHR '' '' \<notin> set ann \<Longrightarrow> fullmatch_PATTERN ann = None \<Longrightarrow>
      apply_slice e a = Inl (ValueError (BadSlice (normalize_path e (path a)) AttributeError))"
proof -
  from assms(1) have c: "contains_dcolon (normalize_path e (path a))"
    using rsplit_dcolon_None_iff[of "normalize_path e (path a)"] by simp
  show "CHR '' '' \<in> set ann \<Longrightarrow> apply_slice e a = Inl (AssertionError (AssertNoSpace ann))"
    using assms c by (simp add: apply_slice_def parse_audio_slice_def)
  show "CHR '' '' \<notin> set ann \<Longrightarrow> fullmatch_PATTERN ann = None \<Longrightarrow>
      apply_slice e a = Inl (ValueError (BadSlice (normalize_path e (path a)) AttributeError))"
    using assms c by (simp add: apply_slice_def parse_audio_slice_def)
qed

text \<open>
  Claim C3, as amended. With every other argument at its default, an annotation (the text
  after the last \<open>::\<close> of the normalised path) that holds a space makes \<open>load_audio\<close> fail
  with an assertion error that carries the annotation; an annotation without a space that
  does not match the pattern, other whitespace included, makes it fail with a
  \<open>ValueError\<close> whose message is the whole path and whose cause is the exception of the
  failed match.
\<close>

theorem load_audio_malformed_annotation:
  assumes "rsplit_dcolon (normalize_path e (path a)) = Some (pre, ann)"
    and "num_value (start a) = 0" and "stop a = None" and "channel a = None"
    and "num_value (frames a) = - 1" and "unit a = ''samples''"
  shows "(CHR '' '' \<in> set ann \<longrightarrow> load_audio e a = Inl (AssertionError (AssertNoSpace ann)))
    \<and> (CHR '' '' \<notin> set ann \<and> fullmatch_PATTERN ann = None \<longrightarrow>
         load_audio e a = Inl (ValueError (BadSlice (normalize_path e (path a)) AttributeError))
         \<and> value_message (BadSlice (normalize_path e (path a)) AttributeError)
             = normalize_path e (path a))"
  using apply_slice_malformed[OF assms]
  by (simp add: load_audio_def resolve_def value_message_def)

text \<open>One annotation with a space and one with a semicolon.\<close>

theorem load_audio_malformed_annotation_witness:
  "rsplit_dcolon (normalize_path example_env (path (default_args ''f.wav::[0: 5]'' :: int load_args)))
       = Some (''f.wav'', ''[0: 5]'')
   \<and> CHR '' '' \<in> set ''[0: 5]''
   \<and> load_audio example_env (default_args ''f.wav::[0: 5]'') = Inl (AssertionError (AssertNoSpace ''[0: 5]''))
   \<and> rsplit_dcolon (normalize_path example_env (path (default_args ''f.wav::[0;5]'' :: int load_args)))
       = Some (''f.wav'', ''[0;5]'')
   \<and> CHR '' '' \<notin> set ''[0;5]'' \<and> fullmatch_PATTERN ''[0;5]'' = None
   \<and> load_audio example_env (default_args ''f.wav::[0;5]'') = Inl (ValueError (BadSlice ''f.wav::[0;5]'' AttributeError))"
  using load_audio_malformed_annotation[of example_env "default_args ''f.wav::[0: 5]''" "''f.wav''" "''[0: 5]''"]
    load_audio_malformed_annotation[of example_env "default_args ''f.wav::[0;5]''" "''f.wav''" "''[0;5]''"]
  by (simp add: example_env_def default_args_def fullmatch_PATTERN_def expect_def opt_digits_def
      is_digit_def num_value_def)

text \<open>
  Claim C3 as stated fails: for \<open>f.wav::[0: 5]\<close> the error is the assertion error, not the
  \<open>ValueError\<close> that names the path.
\<close>

theorem load_audio_space_counterexample:
  "load_audio example_env (default_args ''f.wav::[0: 5]'')
     = Inl (AssertionError (AssertNoSpace ''[0: 5]''))
   \<and> load_audio example_env (default_args ''f.wav::[0: 5]'')
     \<noteq> Inl (ValueError (BadSlice ''f.wav::[0: 5]'' AttributeError))"
  by (simp add: load_audio_def resolve_def apply_slice_def parse_audio_slice_def
      example_env_def default_args_def num_value_def)

subsection \<open>The stages of \<open>load_audio\<close>\<close>

lemma parse_audio_slice_error:
  "parse_audio_slice p x y c = Inl err \<Longrightarrow>
     (\<exists>info. err = AssertionError info) \<or> err = ValueError UnpackFailed
     \<or> err = ValueError (BadSlice p AttributeError)"
  by (auto simp: parse_audio_slice_def Let_def split: if_splits option.splits prod.splits)

lemma apply_slice_error:
  "apply_slice e a = Inl err \<Longrightarrow>
     (\<exists>info. err = AssertionError info) \<or> err = ValueError UnpackFailed
     \<or> (\<exists>p. err = ValueError (BadSlice p AttributeError))"
  by (auto simp: apply_slice_def Let_def split: if_splits sum.splits dest: parse_audio_slice_error)

lemma resolve_unit_error:
  "resolve_unit e a = Inl err \<Longrightarrow>
     (\<exists>u s. err = NotImplementedError u s) \<or> (\<exists>p. err = RuntimeError (OpenFailed p))
     \<or> (\<exists>u. err = ValueError (BadUnit u))"
  by (auto simp: resolve_unit_def Let_def split: if_splits option.splits)

lemma resolve_no_mismatch: "resolve e a \<noteq> Inl (ValueError (RateMismatch x y))"
  by (auto simp: resolve_def split: sum.splits
      dest!: apply_slice_error resolve_unit_error)

lemma prepare_read_error:
  "prepare_read f s t n = Inl err \<Longrightarrow> \<exists>m. err = TypeError m"
  by (auto simp: prepare_read_def Let_def split: if_splits prod.splits option.splits)

lemma buffer_frames_error:
  "buffer_frames f pos n fill = Inl err \<Longrightarrow> \<exists>m. err = TypeError m"
  by (auto simp: buffer_frames_def split: pynum.splits if_splits)

lemma read_window_error:
  "read_window f a = Inl err \<Longrightarrow> \<exists>m. err = TypeError m"
  by (auto simp: read_window_def split: sum.splits prod.splits
      dest: prepare_read_error buffer_frames_error)

lemma decode_no_mismatch: "decode e a \<noteq> Inl (ValueError (RateMismatch x y))"
  by (auto simp: decode_def decode_m4a_def decode_soundfile_def Let_def
      split: if_splits option.splits sum.splits dest!: read_window_error)

lemma index_channel_error: "index_channel c n xs ch = Inl err \<Longrightarrow> err = IndexError"
  by (auto simp: index_channel_def Let_def split: channel.splits option.splits prod.splits)

lemma select_channel_no_mismatch:
  "select_channel sig cho \<noteq> Inl (ValueError (RateMismatch x y))"
  by (auto simp: select_channel_def split: option.splits list.splits sum.splits if_splits
      dest!: index_channel_error)

lemma apply_slice_keeps:
  "apply_slice e a = Inr a1 \<Longrightarrow>
     expected_sample_rate a1 = expected_sample_rate a \<and> fill_value a1 = fill_value a
     \<and> dtype a1 = dtype a \<and> return_sample_rate a1 = return_sample_rate a
     \<and> unit a1 = unit a \<and> frames a1 = frames a"
  by (auto simp: apply_slice_def Let_def split: if_splits sum.splits)

lemma resolve_unit_keeps:
  "resolve_unit e a1 = Inr a2 \<Longrightarrow>
     expected_sample_rate a2 = expected_sample_rate a1 \<and> fill_value a2 = fill_value a1
     \<and> dtype a2 = dtype a1 \<and> return_sample_rate a2 = return_sample_rate a1
     \<and> unit a2 = unit a1 \<and> channel a2 = channel a1 \<and> path a2 = path a1"
  by (auto simp: resolve_unit_def Let_def split: if_splits option.splits)

lemma resolve_keeps:
  assumes "resolve e a = Inr a2"
  shows "expected_sample_rate a2 = expected_sample_rate a" and "fill_value a2 = fill_value a"
    and "dtype a2 = dtype a" and "return_sample_rate a2 = return_sample_rate a"
    and "unit a2 = unit a"
  using assms
  by (auto simp: resolve_def split: sum.splits dest!: apply_slice_keeps resolve_unit_keeps)

subsection \<open>The expected sample rate\<close>

text \<open>
  Claim C8. \<open>load_audio\<close> fails with the \<open>ValueError\<close> of a sample-rate mismatch exactly
  when the request resolves, the file decodes with sample rate \<open>y\<close>, and an expected
  sample rate \<open>x\<close> other than \<open>y\<close> is given; the message holds both rates. So a mismatch
  always fails, nothing is returned (no resampled signal either), and with equal rates
  or without an expected rate this error does not occur.
\<close>

theorem load_audio_sample_rate_mismatch:
  "(load_audio e a = Inl (ValueError (RateMismatch x y)) \<longleftrightarrow>
      (\<exists>a2 sig. resolve e a = Inr a2 \<and> decode e a2 = Inr (sig, y)
         \<and> expected_sample_rate a = Some x \<and> x \<noteq> y))
   \<and> value_message (RateMismatch x y) =
       ''Requested sampling rate is '' @ show_int x @ '' but the audiofile has '' @ show_int y"
proof -
  have "load_audio e a = Inl (ValueError (RateMismatch x y))"
    if "resolve e a = Inr a2" "decode e a2 = Inr (sig, y)" "expected_sample_rate a = Some x" "x \<noteq> y"
    for a2 sig
    using that resolve_keeps(1)[OF that(1)]
    by (simp add: load_audio_def finish_def check_sample_rate_def)
  moreover have "\<exists>a2 sig. resolve e a = Inr a2 \<and> decode e a2 = Inr (sig, y)
         \<and> expected_sample_rate a = Some x \<and> x \<noteq> y"
    if l: "load_audio e a = Inl (ValueError (RateMismatch x y))"
  proof -
    from l resolve_no_mismatch[of e a x y] obtain a2 where r: "resolve e a = Inr a2"
      by (cases "resolve e a") (auto simp: load_audio_def)
    from l r decode_no_mismatch[of e a2 x y] obtain sig sr where d: "decode e a2 = Inr (sig, sr)"
      by (cases "decode e a2") (auto simp: load_audio_def)
    from l r d have f: "finish a2 (sig, sr) = Inl (ValueError (RateMismatch x y))"
      by (simp add: load_audio_def)
    have "expected_sample_rate a2 = Some x \<and> x \<noteq> y \<and> sr = y"
      using f select_channel_no_mismatch[of "transpose_T sig" "channel a2" x y]
      by (auto simp: finish_def check_sample_rate_def split: option.splits if_splits sum.splits)
    with r d resolve_keeps(1)[OF r] show ?thesis by auto
  qed
  ultimately show ?thesis
    by (auto simp: value_message_def)
qed

text \<open>The file of one channel has the sample rate 8; 16000 is expected.\<close>

theorem load_audio_sample_rate_mismatch_witness:
  "load_audio example_env ((default_args ''mono.wav'')\<lparr>expected_sample_rate := Some 16000\<rparr>)
     = Inl (ValueError (RateMismatch 16000 8))
   \<and> value_message (RateMismatch 16000 8)
     = ''Requested sampling rate is 16000 but the audiofile has 8''
   \<and> load_audio example_env ((default_args ''mono.wav'')\<lparr>expected_sample_rate := Some 8\<rparr>)
     \<noteq> Inl (ValueError (RateMismatch 8 8))"
proof -
  let ?a = "(default_args ''mono.wav'')\<lparr>expected_sample_rate := Some 16000\<rparr> :: int load_args"
  have r: "resolve example_env ?a = Inr ?a"
    by (simp add: resolve_def apply_slice_def resolve_unit_def default_args_def example_env_def)
  have d: "\<exists>sig. decode example_env ?a = Inr (sig, 8)"
    by (simp add: decode_def decode_soundfile_def path_suffix_def path_name_def default_args_def
        example_env_def mono_file_def read_window_def as_index_def buffer_frames_def num_value_def prepare_read_def
        slice_indices_def clip_index_def)
  have s: "show_int 16000 = ''16000''" "show_int 8 = ''8''"
    by (simp_all add: show_int_def show_nat.simps digit_char_def)
  from r d load_audio_sample_rate_mismatch[of example_env ?a 16000 8]
    load_audio_sample_rate_mismatch[of example_env "(default_args ''mono.wav'')\<lparr>expected_sample_rate := Some 8\<rparr>" 8 8]
  show ?thesis
    by (auto simp: s)
qed

subsection \<open>Empty selections\<close>

lemma select_channel_nonempty:
  "select_channel sig (Some ch) = Inr sel \<Longrightarrow> size_nd sel \<noteq> 0"
  by (auto simp: select_channel_def split: list.splits sum.splits if_splits)

lemma finish_signal:
  "finish a (sig, sr) = Inr r \<Longrightarrow> select_channel (transpose_T sig) (channel a) = Inr (signal_of r)"
  by (auto simp: finish_def signal_of_def split: option.splits sum.splits if_splits)

text \<open>
  Claim C7. When the resolved request has a channel selection: if the file decodes, the
  sample rate passes its check and the selection applied to the transposed signal has
  no element, \<open>load_audio\<close> fails with the \<open>ValueError\<close> whose message is
  \<open>Returned signal would be empty\<close>; and no call with a channel selection returns an
  array without elements.
\<close>

theorem load_audio_empty_selection:
  assumes "resolve e a = Inr a2" and "channel a2 = Some ch"
  shows "(\<forall>sig sr c n sel.
            decode e a2 = Inr (sig, sr)
            \<and> check_sample_rate (expected_sample_rate a2) sr = None
            \<and> shape (transpose_T sig) = [c, n]
            \<and> index_channel c n (data (transpose_T sig)) ch = Inr sel
            \<and> size_nd sel = 0
            \<longrightarrow> load_audio e a = Inl (ValueError EmptySignal))
    \<and> value_message EmptySignal = ''Returned signal would be empty''
    \<and> (\<forall>r. load_audio e a = Inr r \<longrightarrow> size_nd (signal_of r) \<noteq> 0)"
proof (intro conjI allI impI)
  fix sig sr c n sel
  assume "decode e a2 = Inr (sig, sr)
            \<and> check_sample_rate (expected_sample_rate a2) sr = None
            \<and> shape (transpose_T sig) = [c, n]
            \<and> index_channel c n (data (transpose_T sig)) ch = Inr sel
            \<and> size_nd sel = 0"
  with assms show "load_audio e a = Inl (ValueError EmptySignal)"
    by (simp add: load_audio_def finish_def select_channel_def)
next
  show "value_message EmptySignal = ''Returned signal would be empty''"
    by (simp add: value_message_def)
next
  fix r
  assume l: "load_audio e a = Inr r"
  with assms(1) obtain sig sr where "decode e a2 = Inr (sig, sr)" "finish a2 (sig, sr) = Inr r"
    by (cases "decode e a2") (auto simp: load_audio_def)
  from finish_signal[OF this(2)] assms(2) show "size_nd (signal_of r) \<noteq> 0"
    by (auto dest: select_channel_nonempty)
qed

lemma example_resolve:
  "\<not> contains_dcolon p \<Longrightarrow> resolve example_env (default_args p) = Inr (default_args p)"
  by (simp add: resolve_def apply_slice_def resolve_unit_def default_args_def example_env_def)

text \<open>
  On the file of two channels, \<open>[:,2:]\<close> selects no channel and \<open>[:,0]\<close> selects the
  first one.
\<close>

theorem load_audio_empty_selection_witness:
  "resolve example_env (default_args ''stereo.wav::[:,2:]'')
     = Inr ((default_args ''stereo.wav'')\<lparr>channel := Some (Slice (Some 2) None)\<rparr>)
   \<and> decode example_env ((default_args ''stereo.wav'')\<lparr>channel := Some (Slice (Some 2) None)\<rparr>)
     = Inr (\<lparr>shape = [3, 2], data = [1, 2, 3, 4, 5, 6]\<rparr>, 16000)
   \<and> index_channel 2 3 [1, 3, 5, 2, 4, 6 :: int] (Slice (Some 2) None)
     = Inr \<lparr>shape = [0, 3], data = []\<rparr>
   \<and> load_audio example_env (default_args ''stereo.wav::[:,2:]'') = Inl (ValueError EmptySignal)
   \<and> load_audio example_env (default_args ''stereo.wav::[:,0]'')
     = Inr (Signal \<lparr>shape = [3], data = [1, 3, 5]\<rparr>)
   \<and> size_nd \<lparr>shape = [3], data = [1, 3, 5 :: int]\<rparr> \<noteq> 0"
proof -
  let ?a2 = "(default_args ''stereo.wav'')\<lparr>channel := Some (Slice (Some 2) None)\<rparr> :: int load_args"
  have m: "fullmatch_PATTERN ''[:,2:]'' = Some (None, None, Some ''2'', None, None)"
    "fullmatch_PATTERN ''[:,0]'' = Some (None, None, None, None, Some ''0'')"
    by (simp_all add: fullmatch_PATTERN_def expect_def opt_digits_def is_digit_def
        match_channel_part_def match_channel_range_def match_channel_index_def)
  have r: "resolve example_env (default_args ''stereo.wav::[:,2:]'') = Inr ?a2"
    using m by (simp add: resolve_def apply_slice_def resolve_unit_def default_args_def example_env_def
        parse_audio_slice_def int_py_def digit_value_def num_value_def)
  have r0: "resolve example_env (default_args ''stereo.wav::[:,0]'')
      = Inr ((default_args ''stereo.wav'')\<lparr>channel := Some (Index 0)\<rparr>)"
    using m by (simp add: resolve_def apply_slice_def resolve_unit_def default_args_def example_env_def
        parse_audio_slice_def int_py_def digit_value_def num_value_def)
  have sfx: "path_suffix ''stereo.wav'' = ''.wav''"
    by (simp add: path_suffix_def path_name_def)
  have w: "read_window stereo_file ((default_args ''stereo.wav'')\<lparr>channel := c\<rparr>) = Inr (0, 3)" for c
    by (simp add: read_window_def as_index_def buffer_frames_def num_value_def prepare_read_def slice_indices_def clip_index_def
        default_args_def stereo_file_def)
  have rd: "sf_read stereo_file 0 3 None True = \<lparr>shape = [3, 2], data = [1, 2, 3, 4, 5, 6]\<rparr>"
    by (simp add: sf_read_def read_rows_def stereo_file_def)
  have d: "decode example_env ((default_args ''stereo.wav'')\<lparr>channel := Some c\<rparr>)
      = Inr (\<lparr>shape = [3, 2], data = [1, 2, 3, 4, 5, 6]\<rparr>, 16000)" for c
    using w[of "Some c"] rd sfx
    by (simp add: decode_def decode_soundfile_def default_args_def example_env_def)
       (simp add: stereo_file_def)
  have t: "transpose_T \<lparr>shape = [3, 2], data = [1, 2, 3, 4, 5, 6 :: int]\<rparr>
      = \<lparr>shape = [2, 3], data = [1, 3, 5, 2, 4, 6]\<rparr>"
    by (simp add: transpose_T_def upt_rec)
  have i: "index_channel 2 3 [1, 3, 5, 2, 4, 6 :: int] (Slice (Some 2) None)
     = Inr \<lparr>shape = [0, 3], data = []\<rparr>"
    by (simp add: index_channel_def slice_indices_def clip_index_def)
  have i0: "index_channel 2 3 [1, 3, 5, 2, 4, 6 :: int] (Index 0)
     = Inr \<lparr>shape = [3], data = [1, 3, 5]\<rparr>"
    by (simp add: index_channel_def axis_index_def row_of_def)
  have l0: "load_audio example_env (default_args ''stereo.wav::[:,0]'')
     = Inr (Signal \<lparr>shape = [3], data = [1, 3, 5]\<rparr>)"
    using r0 d[of "Index 0"] t i0
    by (simp add: load_audio_def finish_def check_sample_rate_def select_channel_def size_nd_def
        default_args_def)
  have c: "check_sample_rate (expected_sample_rate ?a2) 16000 = None"
    by (simp add: check_sample_rate_def default_args_def)
  have ch: "channel ?a2 = Some (Slice (Some 2) None)" by simp
  from load_audio_empty_selection[OF r ch] d[of "Slice (Some 2) None"] c t i l0
  have "load_audio example_env (default_args ''stereo.wav::[:,2:]'') = Inl (ValueError EmptySignal)"
    by (simp add: size_nd_def)
  with r d[of "Slice (Some 2) None"] i l0 show ?thesis
    by (simp add: size_nd_def)
qed

subsection \<open>An empty window under a channel selection\<close>

lemma transpose_T_no_frames:
  "transpose_T \<lparr>shape = [0, c], data = []\<rparr> = \<lparr>shape = [c, 0], data = ([] :: 'a list)\<rparr>"
  by (simp add: transpose_T_def)

lemma index_channel_no_frames:
  assumes "channel_exists c ch"
  shows "\<exists>sel. index_channel c 0 xs ch = Inr sel \<and> size_nd sel = 0"
  using assms
  by (cases ch)
     (auto simp: index_channel_def channel_exists_def size_nd_def Let_def
        split: option.splits prod.splits)

lemma sf_read_no_frames:
  "sf_read f pos 0 fill True = \<lparr>shape = [0, channels f], data = []\<rparr>"
  by (cases fill) (simp_all add: sf_read_def read_rows_def)

text \<open>
  Claim C10. When the resolved request has a channel selection, the file opens in the
  sound-file branch, the resolved window holds no frame and the expected sample rate
  passes its check, \<open>load_audio\<close> fails with the \<open>ValueError\<close> of the empty signal
  although every selected channel exists in the file: the check counts the elements
  of the selected array.
\<close>

theorem load_audio_empty_window:
  assumes "resolve e a = Inr a2"
    and "path_suffix (path a2) \<noteq> ''.m4a''"
    and "sf_open e (path a2) = Some f"
    and "dtype a2 \<noteq> None \<or> subtype f \<in> {''PCM_16'', ''FLOAT'', ''DOUBLE''}"
    and "read_window f a2 = Inr (pos, 0)"
    and "check_sample_rate (expected_sample_rate a2) (samplerate f) = None"
    and "channel a2 = Some ch"
    and "channel_exists (channels f) ch"
  shows "load_audio e a = Inl (ValueError EmptySignal)
    \<and> value_message EmptySignal = ''Returned signal would be empty''"
proof -
  have d: "decode e a2 = Inr (\<lparr>shape = [0, channels f], data = []\<rparr>, samplerate f)"
    using assms(2-5,7) by (auto simp: decode_def decode_soundfile_def sf_read_no_frames)
  from index_channel_no_frames[OF assms(8)] obtain sel where
    "index_channel (channels f) 0 ([] :: 'a list) ch = Inr sel" "size_nd sel = 0" by blast
  then have "select_channel (transpose_T \<lparr>shape = [0, channels f], data = ([] :: 'a list)\<rparr>) (Some ch)
      = Inl (ValueError EmptySignal)"
    by (simp add: transpose_T_no_frames select_channel_def)
  with assms(1,6,7) d show ?thesis
    by (simp add: load_audio_def finish_def value_message_def)
qed

text \<open>Frames 1 to 1 of the second channel of the file of two channels.\<close>

theorem load_audio_empty_window_witness:
  "resolve example_env (default_args ''stereo.wav::[1:1,1]'')
     = Inr ((default_args ''stereo.wav'')\<lparr>start := PyInt 1, stop := Some (PyInt 1), channel := Some (Index 1)\<rparr>)
   \<and> path_suffix ''stereo.wav'' \<noteq> ''.m4a''
   \<and> sf_open example_env ''stereo.wav'' = Some stereo_file
   \<and> read_window stereo_file
        ((default_args ''stereo.wav'')\<lparr>start := PyInt 1, stop := Some (PyInt 1), channel := Some (Index 1)\<rparr>)
      = Inr (1, 0)
   \<and> channel_exists (channels stereo_file) (Index 1)
   \<and> load_audio example_env (default_args ''stereo.wav::[1:1,1]'') = Inl (ValueError EmptySignal)"
proof -
  let ?a2 = "(default_args ''stereo.wav'')\<lparr>start := PyInt 1, stop := Some (PyInt 1), channel := Some (Index 1)\<rparr>
    :: int load_args"
  have m: "fullmatch_PATTERN ''[1:1,1]'' = Some (Some ''1'', Some ''1'', None, None, Some ''1'')"
    by (simp add: fullmatch_PATTERN_def expect_def opt_digits_def is_digit_def
        match_channel_part_def match_channel_range_def match_channel_index_def)
  have r: "resolve example_env (default_args ''stereo.wav::[1:1,1]'') = Inr ?a2"
    using m by (simp add: resolve_def apply_slice_def resolve_unit_def default_args_def example_env_def
        parse_audio_slice_def int_py_def digit_value_def num_value_def)
  have sfx: "path_suffix (path ?a2) \<noteq> ''.m4a''"
    by (simp add: path_suffix_def path_name_def default_args_def)
  have o: "sf_open example_env (path ?a2) = Some stereo_file"
    by (simp add: example_env_def default_args_def)
  have dt: "dtype ?a2 \<noteq> None \<or> subtype stereo_file \<in> {''PCM_16'', ''FLOAT'', ''DOUBLE''}"
    by (simp add: default_args_def)
  have w: "read_window stereo_file ?a2 = Inr (1, 0)"
    by (simp add: read_window_def as_index_def buffer_frames_def num_value_def prepare_read_def slice_indices_def clip_index_def
        default_args_def stereo_file_def)
  have c: "check_sample_rate (expected_sample_rate ?a2) (samplerate stereo_file) = None"
    by (simp add: check_sample_rate_def default_args_def)
  have ch: "channel ?a2 = Some (Index 1)" by simp
  have ex: "channel_exists (channels stereo_file) (Index 1)"
    by (simp add: channel_exists_def axis_index_def stereo_file_def)
  from load_audio_empty_window[OF r sfx o dt w c ch ex] r sfx o w ex show ?thesis
    by (simp add: default_args_def)
qed

subsection \<open>Seconds and samples\<close>

lemma read_window_unit: "read_window f (a\<lparr>unit := u\<rparr>) = read_window f a"
  by (simp add: read_window_def cong: sum.case_cong prod.case_cong)

lemma decode_unit: "decode e (a\<lparr>unit := u\<rparr>) = decode e a"
  by (auto simp: decode_def decode_m4a_def decode_soundfile_def read_window_unit Let_def
      split: option.splits sum.splits prod.splits)

lemma finish_unit: "finish (a\<lparr>unit := u\<rparr>) r = finish a r"
  by (cases r) (auto simp: finish_def split: option.splits sum.splits)

lemma resolve_samples:
  assumes "\<not> contains_dcolon (normalize_path e (path a))" and "unit a = ''samples''"
  shows "resolve e a = Inr (a\<lparr>path := normalize_path e (path a)\<rparr>)"
  using assms by (simp add: resolve_def apply_slice_def resolve_unit_def)

lemma resolve_seconds:
  assumes "\<not> contains_dcolon (normalize_path e (path a))" and "unit a = ''seconds''"
    and "sf_open e (normalize_path e (path a)) = Some f"
    and "\<forall>s. stop a = Some s \<longrightarrow> 0 \<le> num_value s"
  shows "resolve e a =
    Inr (a\<lparr>path := normalize_path e (path a),
           start := to_samples e (start a) (samplerate f),
           frames := (if 0 < num_value (frames a) then to_samples e (frames a) (samplerate f)
                      else frames a),
           stop := (case stop a of
                      None \<Rightarrow> None
                    | Some s \<Rightarrow>
                        if 0 < num_value s then Some (to_samples e s (samplerate f))
                        else Some s)\<rparr>)"
proof (cases "stop a")
  case None
  with assms show ?thesis
    by (simp add: resolve_def apply_slice_def resolve_unit_def Let_def)
next
  case (Some s)
  with assms(4) have "\<not> num_value s < 0" by (simp add: not_less)
  with assms(1-3) Some show ?thesis
    by (simp add: resolve_def apply_slice_def resolve_unit_def Let_def)
qed

lemma resolve_seconds_negative:
  assumes "\<not> contains_dcolon (normalize_path e (path a))" and "unit a = ''seconds''"
    and "stop a = Some s" and "num_value s < 0"
  shows "resolve e a = Inl (NotImplementedError ''seconds'' s)"
  using assms by (simp add: resolve_def apply_slice_def resolve_unit_def)

text \<open>\<open>np.round\<close> gives a nearest integer, and the even one of two.\<close>

lemma np_round_nearest:
  "\<bar>of_int (np_round x) - x\<bar> \<le> 1 / 2
   \<and> (\<bar>of_int (np_round x) - x\<bar> = 1 / 2 \<longrightarrow> even (np_round x))"
proof -
  let ?f = "\<lfloor>x\<rfloor>"
  have lo: "of_int ?f \<le> x" and hi: "x < of_int ?f + 1"
    by linarith+
  consider (down) "x - of_int ?f < 1 / 2" | (up) "1 / 2 < x - of_int ?f"
    | (tie) "x - of_int ?f = 1 / 2"
    by linarith
  then show ?thesis
  proof cases
    case down
    then have r: "np_round x = ?f" by (simp add: np_round_def Let_def)
    from down lo have "\<bar>of_int ?f - x\<bar> < 1 / 2" by linarith
    with r show ?thesis by simp
  next
    case up
    then have r: "np_round x = ?f + 1" by (simp add: np_round_def Let_def)
    from up hi have "\<bar>of_int ?f + 1 - x\<bar> < 1 / 2" by linarith
    with r show ?thesis by simp
  next
    case tie
    show ?thesis
    proof (cases "even ?f")
      case True
      with tie have r: "np_round x = ?f" by (simp add: np_round_def Let_def)
      from tie have "\<bar>of_int ?f - x\<bar> = 1 / 2" by linarith
      with r True show ?thesis by simp
    next
      case False
      with tie have r: "np_round x = ?f + 1" by (simp add: np_round_def Let_def)
      from tie have "\<bar>of_int ?f + 1 - x\<bar> = 1 / 2" by linarith
      with r False show ?thesis by simp
    qed
  qed
qed

lemma to_samples_int: "to_samples e (PyInt i) sr = PyInt (i * sr)"
  by (simp add: to_samples_def times_samplerate_def round_to_int_def)

lemma to_samples_float:
  "\<exists>n. to_samples e (PyFloat x) sr = PyInt n
       \<and> \<bar>of_int n - float_product e x sr\<bar> \<le> 1 / 2
       \<and> (\<bar>of_int n - float_product e x sr\<bar> = 1 / 2 \<longrightarrow> even n)"
  using np_round_nearest[of "float_product e x sr"]
  by (simp add: to_samples_def times_samplerate_def round_to_int_def)

text \<open>
  Claim C5, as amended. For a path without \<open>::\<close>: with the unit \<open>'samples'\<close> start, frames
  and stop reach the decoder as they are given. With the unit \<open>'seconds'\<close> and a file
  that opens for its sample rate, a negative stop raises \<open>NotImplementedError\<close>;
  otherwise start becomes \<open>round(start * samplerate)\<close>, frames becomes
  \<open>round(frames * samplerate)\<close> when it is positive and stays as it is otherwise, and
  stop becomes \<open>round(stop * samplerate)\<close> when it is positive and stays as it is when
  it is zero or absent, each value converted by itself; the call then returns what the
  call in samples with these values returns. The conversion of an \<open>int\<close> is the exact
  product; the conversion of a \<open>float\<close> is an integer nearest to the float product,
  the even one at a tie.
\<close>

theorem load_audio_unit_resolution:
  assumes "\<not> contains_dcolon (normalize_path e (path a))"
  shows "(unit a = ''samples'' \<longrightarrow>
            resolve e a = Inr (a\<lparr>path := normalize_path e (path a)\<rparr>))
    \<and> (\<forall>s. unit a = ''seconds'' \<and> stop a = Some s \<and> num_value s < 0 \<longrightarrow>
          resolve e a = Inl (NotImplementedError ''seconds'' s))
    \<and> (unit a = ''seconds'' \<and> sf_open e (normalize_path e (path a)) = Some f
          \<and> (\<forall>s. stop a = Some s \<longrightarrow> 0 \<le> num_value s) \<longrightarrow>
          resolve e a =
            Inr (a\<lparr>path := normalize_path e (path a),
                   start := to_samples e (start a) (samplerate f),
                   frames := (if 0 < num_value (frames a)
                              then to_samples e (frames a) (samplerate f)
                              else frames a),
                   stop := (case stop a of
                              None \<Rightarrow> None
                            | Some s \<Rightarrow>
                                if 0 < num_value s then Some (to_samples e s (samplerate f))
                                else Some s)\<rparr>)
          \<and> load_audio e a =
            load_audio e
              (a\<lparr>unit := ''samples'',
                 start := to_samples e (start a) (samplerate f),
                 frames := (if 0 < num_value (frames a)
                            then to_samples e (frames a) (samplerate f)
                            else frames a),
                 stop := (case stop a of
                            None \<Rightarrow> None
                          | Some s \<Rightarrow>
                              if 0 < num_value s then Some (to_samples e s (samplerate f))
                              else Some s)\<rparr>))
    \<and> (\<forall>i sr. to_samples e (PyInt i) sr = PyInt (i * sr))
    \<and> (\<forall>x sr. \<exists>n. to_samples e (PyFloat x) sr = PyInt n
           \<and> \<bar>of_int n - float_product e x sr\<bar> \<le> 1 / 2
           \<and> (\<bar>of_int n - float_product e x sr\<bar> = 1 / 2 \<longrightarrow> even n))"
proof -
  let ?st = "to_samples e (start a) (samplerate f)"
  let ?fr = "if 0 < num_value (frames a) then to_samples e (frames a) (samplerate f)
             else frames a"
  let ?sp = "case stop a of
               None \<Rightarrow> None
             | Some s \<Rightarrow> if 0 < num_value s then Some (to_samples e s (samplerate f)) else Some s"
  let ?b = "a\<lparr>unit := ''samples'', start := ?st, frames := ?fr, stop := ?sp\<rparr>"
  have 1: "resolve e a = Inr (a\<lparr>path := normalize_path e (path a)\<rparr>)"
    if "unit a = ''samples''"
    using assms that by (rule resolve_samples)
  have 2: "resolve e a = Inl (NotImplementedError ''seconds'' s)"
    if "unit a = ''seconds'' \<and> stop a = Some s \<and> num_value s < 0" for s
    using assms that by (intro resolve_seconds_negative) simp_all
  have 3: "resolve e a =
        Inr (a\<lparr>path := normalize_path e (path a), start := ?st, frames := ?fr, stop := ?sp\<rparr>)
      \<and> load_audio e a = load_audio e ?b"
    if h: "unit a = ''seconds'' \<and> sf_open e (normalize_path e (path a)) = Some f
          \<and> (\<forall>s. stop a = Some s \<longrightarrow> 0 \<le> num_value s)"
  proof -
    from h assms have r: "resolve e a =
        Inr (a\<lparr>path := normalize_path e (path a), start := ?st, frames := ?fr, stop := ?sp\<rparr>)"
      by (intro resolve_seconds) simp_all
    have "resolve e ?b = Inr (?b\<lparr>path := normalize_path e (path ?b)\<rparr>)"
      using assms by (intro resolve_samples) simp_all
    then have rb: "resolve e ?b =
        Inr ((a\<lparr>path := normalize_path e (path a), start := ?st, frames := ?fr, stop := ?sp\<rparr>)
              \<lparr>unit := ''samples''\<rparr>)"
      by simp
    have "load_audio e a = load_audio e ?b"
      unfolding load_audio_def r rb
      by (simp add: decode_unit finish_unit cong: sum.case_cong)
    with r show ?thesis by simp
  qed
  from 1 2 3 to_samples_int[of e] to_samples_float[of e] show ?thesis
    by blast
qed

lemma example_to_samples:
  "to_samples example_env (PyFloat (3 / 16)) 8 = PyInt 2"
  "to_samples example_env (PyFloat (1 / 2)) 8 = PyInt 4"
  "to_samples example_env (PyInt 0) 8 = PyInt 0"
proof -
  have fl: "\<lfloor>3 / 2 :: rat\<rfloor> = 1"
    by (rule floor_unique) simp_all
  have "np_round (3 / 2) = 2" "np_round 4 = 4"
    by (simp_all add: np_round_def fl)
  then show "to_samples example_env (PyFloat (3 / 16)) 8 = PyInt 2"
    "to_samples example_env (PyFloat (1 / 2)) 8 = PyInt 4"
    "to_samples example_env (PyInt 0) 8 = PyInt 0"
    by (simp_all add: to_samples_def times_samplerate_def round_to_int_def example_env_def)
qed

text \<open>
  Three sixteenths of a second at eight samples per second are one sample and a half:
  start and frames each become 2, where the end of the window rounded after the sum
  would give one frame only. A stop of half a second becomes 4, and a stop of minus one
  second raises.
\<close>

theorem load_audio_unit_resolution_witness:
  "\<not> contains_dcolon (normalize_path example_env ''mono.wav'')
   \<and> sf_open example_env (normalize_path example_env ''mono.wav'') = Some mono_file
   \<and> resolve example_env
        ((default_args ''mono.wav'')
           \<lparr>unit := ''seconds'', start := PyFloat (3 / 16), frames := PyFloat (3 / 16)\<rparr>)
      = Inr ((default_args ''mono.wav'')
               \<lparr>unit := ''seconds'', start := PyInt 2, frames := PyInt 2\<rparr>)
   \<and> load_audio example_env
        ((default_args ''mono.wav'')
           \<lparr>unit := ''seconds'', start := PyFloat (3 / 16), frames := PyFloat (3 / 16)\<rparr>)
      = load_audio example_env ((default_args ''mono.wav'')\<lparr>start := PyInt 2, frames := PyInt 2\<rparr>)
   \<and> resolve example_env
        ((default_args ''mono.wav'')\<lparr>unit := ''seconds'', stop := Some (PyFloat (1 / 2))\<rparr>)
      = Inr ((default_args ''mono.wav'')\<lparr>unit := ''seconds'', stop := Some (PyInt 4)\<rparr>)
   \<and> resolve example_env
        ((default_args ''mono.wav'')\<lparr>unit := ''seconds'', stop := Some (PyFloat (- 1))\<rparr>)
      = Inl (NotImplementedError ''seconds'' (PyFloat (- 1)))
   \<and> resolve example_env ((default_args ''mono.wav'')\<lparr>start := PyInt 2, frames := PyInt 2\<rparr>)
      = Inr ((default_args ''mono.wav'')\<lparr>start := PyInt 2, frames := PyInt 2\<rparr>)"
proof -
  let ?a = "(default_args ''mono.wav'')
      \<lparr>unit := ''seconds'', start := PyFloat (3 / 16), frames := PyFloat (3 / 16)\<rparr>
    :: int load_args"
  let ?b = "(default_args ''mono.wav'')\<lparr>start := PyInt 2, frames := PyInt 2\<rparr> :: int load_args"
  let ?c = "(default_args ''mono.wav'')\<lparr>unit := ''seconds'', stop := Some (PyFloat (1 / 2))\<rparr>
    :: int load_args"
  let ?d = "(default_args ''mono.wav'')\<lparr>unit := ''seconds'', stop := Some (PyFloat (- 1))\<rparr>
    :: int load_args"
  have n: "\<not> contains_dcolon (normalize_path example_env (path ?a))"
    "\<not> contains_dcolon (normalize_path example_env (path ?b))"
    "\<not> contains_dcolon (normalize_path example_env (path ?c))"
    "\<not> contains_dcolon (normalize_path example_env (path ?d))"
    by (simp_all add: example_env_def default_args_def)
  have o: "sf_open example_env (normalize_path example_env (path ?a)) = Some mono_file"
    by (simp add: example_env_def default_args_def)
  have sr: "samplerate mono_file = 8" by (simp add: mono_file_def)
  from load_audio_unit_resolution[OF n(1), of mono_file]
    load_audio_unit_resolution[OF n(2), of mono_file]
    load_audio_unit_resolution[OF n(3), of mono_file]
    load_audio_unit_resolution[OF n(4), of mono_file]
    o n
  show ?thesis
    by (simp add: default_args_def sr example_to_samples num_value_def)
       (simp add: example_env_def)
qed

text \<open>
  Claim C5 as stated fails at a stop of zero seconds: the stop \<open>0.0\<close> is not converted
  and stays a \<open>float\<close>, which the decoder refuses as an index, while the converted
  stop \<open>round(0.0 * samplerate) = 0\<close> reads an empty window.
\<close>

theorem load_audio_stop_zero_counterexample:
  "resolve example_env
     ((default_args ''mono.wav'')\<lparr>unit := ''seconds'', stop := Some (PyFloat 0)\<rparr>)
     = Inr ((default_args ''mono.wav'')\<lparr>unit := ''seconds'', stop := Some (PyFloat 0)\<rparr>)
   \<and> to_samples example_env (PyFloat 0) 8 = PyInt 0
   \<and> load_audio example_env
        ((default_args ''mono.wav'')\<lparr>unit := ''seconds'', stop := Some (PyFloat 0)\<rparr>)
      = Inl (TypeError ''slice indices must be integers'')
   \<and> load_audio example_env ((default_args ''mono.wav'')\<lparr>stop := Some (PyInt 0)\<rparr>)
      = Inr (Signal \<lparr>shape = [0], data = []\<rparr>)"
proof -
  let ?a = "(default_args ''mono.wav'')\<lparr>unit := ''seconds'', stop := Some (PyFloat 0)\<rparr>
    :: int load_args"
  let ?b = "(default_args ''mono.wav'')\<lparr>stop := Some (PyInt 0)\<rparr> :: int load_args"
  have sfx: "path_suffix ''mono.wav'' = ''.wav''"
    by (simp add: path_suffix_def path_name_def)
  have r: "resolve example_env ?a = Inr ?a"
    by (simp add: resolve_def apply_slice_def resolve_unit_def default_args_def example_env_def
        num_value_def mono_file_def to_samples_def times_samplerate_def round_to_int_def)
  have t: "to_samples example_env (PyFloat 0) 8 = PyInt 0"
    by (simp add: to_samples_def times_samplerate_def round_to_int_def example_env_def
        np_round_def)
  have wa: "read_window mono_file ?a = Inl (TypeError ''slice indices must be integers'')"
    by (simp add: read_window_def prepare_read_def as_index_def num_value_def default_args_def)
  have la: "load_audio example_env ?a = Inl (TypeError ''slice indices must be integers'')"
    using r wa sfx
    by (simp add: load_audio_def decode_def decode_soundfile_def default_args_def example_env_def)
  have rb: "resolve example_env ?b = Inr ?b"
    by (simp add: resolve_def apply_slice_def resolve_unit_def default_args_def example_env_def)
  have wb: "read_window mono_file ?b = Inr (0, 0)"
    by (simp add: read_window_def prepare_read_def as_index_def num_value_def default_args_def
        slice_indices_def clip_index_def buffer_frames_def mono_file_def)
  have rd: "sf_read mono_file 0 0 None False = \<lparr>shape = [0], data = []\<rparr>"
    by (simp add: sf_read_def read_rows_def mono_file_def)
  have lb: "load_audio example_env ?b = Inr (Signal \<lparr>shape = [0], data = []\<rparr>)"
    using rb wb rd sfx
    by (simp add: load_audio_def decode_def decode_soundfile_def default_args_def example_env_def
        finish_def check_sample_rate_def select_channel_def transpose_T_def)
  from r t la lb show ?thesis by simp
qed

subsection \<open>Fewer frames than requested\<close>

lemma clip_index_range: "0 \<le> n \<Longrightarrow> 0 \<le> clip_index n x \<and> clip_index n x \<le> n"
  by (simp add: clip_index_def)

lemma read_window_frames:
  assumes "start a = PyInt s" and "frames a = PyInt n" and "stop a = None" and "0 \<le> n"
  shows "read_window f a =
    Inr (nat (clip_index (int (length (frames_data f))) s), nat n)"
  using assms clip_index_range[of "int (length (frames_data f))" s]
  by (simp add: read_window_def prepare_read_def slice_indices_def as_index_def num_value_def
      buffer_frames_def)

lemma length_read_rows:
  "length (read_rows f pos n fill) =
     (case fill of None \<Rightarrow> min n (length (frames_data f) - pos) | Some v \<Rightarrow> n)"
  by (cases fill) (simp_all add: read_rows_def min_def)

lemma shape_sf_read:
  "shape (sf_read f pos n fill ad) =
     (if ad \<or> 1 < channels f then [length (read_rows f pos n fill), channels f]
      else [length (read_rows f pos n fill)])"
  by (simp add: sf_read_def Let_def)

lemma index_channel_sample_axis:
  "index_channel c n xs ch = Inr sel \<Longrightarrow> sample_axis sel = n"
  by (auto simp: index_channel_def sample_axis_def Let_def
      split: channel.splits option.splits prod.splits)

lemma select_channel_sample_axis:
  assumes "select_channel (transpose_T sig) cho = Inr sel"
    and "shape sig = [k, c] \<or> shape sig = [k]"
  shows "sample_axis sel = k"
proof (cases cho)
  case None
  with assms show ?thesis
    by (auto simp: select_channel_def transpose_T_def sample_axis_def)
next
  case (Some ch)
  with assms show ?thesis
    by (auto simp: select_channel_def transpose_T_def
        split: sum.splits if_splits dest: index_channel_sample_axis)
qed

text \<open>
  Claim C6, as amended. In the sound-file branch (the suffix of the path is not
  \<open>.m4a\<close>), for a request of \<open>n\<close> frames from the start \<open>s\<close> on without a stop, \<open>n\<close>
  larger than the number of frames that remain: the file decodes, the decoded buffer has
  \<open>n\<close> frames when a fill value is given and the remaining frames otherwise, and every
  signal that \<open>load_audio\<close> returns has that length on its sample axis.
\<close>

theorem load_audio_short_file:
  assumes "resolve e a = Inr a2"
    and "path_suffix (path a2) \<noteq> ''.m4a''"
    and "sf_open e (path a2) = Some f"
    and "dtype a2 \<noteq> None \<or> subtype f \<in> {''PCM_16'', ''FLOAT'', ''DOUBLE''}"
    and "start a2 = PyInt s" and "frames a2 = PyInt n" and "stop a2 = None"
    and "int (remaining_frames f s) < n"
  shows "(\<exists>sig. decode e a2 = Inr (sig, samplerate f)
            \<and> hd (shape sig) =
                (case fill_value a of None \<Rightarrow> remaining_frames f s | Some v \<Rightarrow> nat n))
    \<and> (\<forall>r. load_audio e a = Inr r \<longrightarrow>
          sample_axis (signal_of r) =
            (case fill_value a of None \<Rightarrow> remaining_frames f s | Some v \<Rightarrow> nat n))"
proof -
  let ?pos = "nat (clip_index (int (length (frames_data f))) s)"
  let ?k = "case fill_value a of None \<Rightarrow> remaining_frames f s | Some v \<Rightarrow> nat n"
  let ?sig = "sf_read f ?pos (nat n) (fill_value a2) (channel a2 \<noteq> None)"
  from assms(8) have n0: "0 \<le> n" by linarith
  have fv: "fill_value a2 = fill_value a"
    using assms(1) by (rule resolve_keeps)
  have w: "read_window f a2 = Inr (?pos, nat n)"
    using assms(5-7) n0 by (rule read_window_frames)
  have d: "decode e a2 = Inr (?sig, samplerate f)"
    using assms(2-4) w by (auto simp: decode_def decode_soundfile_def)
  have len: "length (read_rows f ?pos (nat n) (fill_value a2)) = ?k"
    using assms(8) fv
    by (cases "fill_value a") (auto simp: length_read_rows remaining_frames_def)
  have sh: "shape ?sig = [?k, channels f] \<or> shape ?sig = [?k]"
    using len by (simp add: shape_sf_read)
  then have "hd (shape ?sig) = ?k" by auto
  with d have 1: "\<exists>sig. decode e a2 = Inr (sig, samplerate f) \<and> hd (shape sig) = ?k"
    by blast
  have 2: "sample_axis (signal_of r) = ?k" if "load_audio e a = Inr r" for r
  proof -
    from that assms(1) d have "finish a2 (?sig, samplerate f) = Inr r"
      by (simp add: load_audio_def)
    then have "select_channel (transpose_T ?sig) (channel a2) = Inr (signal_of r)"
      by (rule finish_signal)
    from select_channel_sample_axis[OF this sh] show ?thesis .
  qed
  from 1 2 show ?thesis by blast
qed

text \<open>
  Five frames from frame 2 of the file of four frames, with the fill value 0 and
  without one.
\<close>

theorem load_audio_short_file_witness:
  "resolve example_env ((default_args ''mono.wav'')\<lparr>start := PyInt 2, frames := PyInt 5, fill_value := Some 0\<rparr>)
     = Inr ((default_args ''mono.wav'')\<lparr>start := PyInt 2, frames := PyInt 5, fill_value := Some 0\<rparr>)
   \<and> path_suffix ''mono.wav'' \<noteq> ''.m4a''
   \<and> sf_open example_env ''mono.wav'' = Some mono_file
   \<and> int (remaining_frames mono_file 2) < 5
   \<and> load_audio example_env
        ((default_args ''mono.wav'')\<lparr>start := PyInt 2, frames := PyInt 5, fill_value := Some 0\<rparr>)
      = Inr (Signal \<lparr>shape = [5], data = [5, 7, 0, 0, 0]\<rparr>)
   \<and> sample_axis \<lparr>shape = [5], data = [5, 7, 0, 0, 0 :: int]\<rparr> = 5
   \<and> load_audio example_env ((default_args ''mono.wav'')\<lparr>start := PyInt 2, frames := PyInt 5\<rparr>)
      = Inr (Signal \<lparr>shape = [2], data = [5, 7]\<rparr>)
   \<and> sample_axis \<lparr>shape = [2], data = [5, 7 :: int]\<rparr> = remaining_frames mono_file 2"
proof -
  let ?a = "(default_args ''mono.wav'')\<lparr>start := PyInt 2, frames := PyInt 5, fill_value := Some 0\<rparr>
    :: int load_args"
  let ?b = "(default_args ''mono.wav'')\<lparr>start := PyInt 2, frames := PyInt 5\<rparr> :: int load_args"
  have r: "resolve example_env ?a = Inr ?a" "resolve example_env ?b = Inr ?b"
    by (simp_all add: resolve_def apply_slice_def resolve_unit_def default_args_def
        example_env_def)
  have sfx: "path_suffix (path ?a) \<noteq> ''.m4a''" "path_suffix (path ?b) \<noteq> ''.m4a''"
    by (simp_all add: path_suffix_def path_name_def default_args_def)
  have o: "sf_open example_env (path ?a) = Some mono_file"
    "sf_open example_env (path ?b) = Some mono_file"
    by (simp_all add: example_env_def default_args_def)
  have dt: "dtype ?a \<noteq> None \<or> subtype mono_file \<in> {''PCM_16'', ''FLOAT'', ''DOUBLE''}"
    "dtype ?b \<noteq> None \<or> subtype mono_file \<in> {''PCM_16'', ''FLOAT'', ''DOUBLE''}"
    by (simp_all add: default_args_def)
  have st: "start ?a = PyInt 2" "frames ?a = PyInt 5" "stop ?a = None"
    "start ?b = PyInt 2" "frames ?b = PyInt 5" "stop ?b = None"
    by (simp_all add: default_args_def)
  have rem: "remaining_frames mono_file 2 = 2"
    by (simp add: remaining_frames_def clip_index_def mono_file_def)
  then have lt: "int (remaining_frames mono_file 2) < 5" by simp
  have w: "read_window mono_file ?a = Inr (2, 5)" "read_window mono_file ?b = Inr (2, 5)"
    by (simp_all add: read_window_def as_index_def buffer_frames_def num_value_def prepare_read_def slice_indices_def
        clip_index_def default_args_def mono_file_def)
  have rows: "read_rows mono_file 2 5 (Some 0) = [[5], [7], [0], [0], [0]]"
    "read_rows mono_file 2 5 None = [[5], [7]]"
    by (simp_all add: read_rows_def mono_file_def numeral_eq_Suc)
  have la: "load_audio example_env ?a = Inr (Signal \<lparr>shape = [5], data = [5, 7, 0, 0, 0]\<rparr>)"
    using r(1) sfx(1) o(1) w(1) rows(1)
    by (simp add: load_audio_def decode_def decode_soundfile_def sf_read_def finish_def
        check_sample_rate_def select_channel_def transpose_T_def default_args_def)
       (simp add: mono_file_def)
  have lb: "load_audio example_env ?b = Inr (Signal \<lparr>shape = [2], data = [5, 7]\<rparr>)"
    using r(2) sfx(2) o(2) w(2) rows(2)
    by (simp add: load_audio_def decode_def decode_soundfile_def sf_read_def finish_def
        check_sample_rate_def select_channel_def transpose_T_def default_args_def)
       (simp add: mono_file_def)
  from load_audio_short_file[OF r(1) sfx(1) o(1) dt(1) st(1-3) lt]
    load_audio_short_file[OF r(2) sfx(2) o(2) dt(2) st(4-6) lt]
    la lb r sfx o lt
  show ?thesis
    by (simp add: signal_of_def default_args_def)
qed

text \<open>
  Claim C6 as stated fails in the lossy-codec branch, which uses neither \<open>frames\<close> nor
  \<open>fill_value\<close>: five frames of a file of two samples, requested with the fill value 0,
  come back as the two samples of the file.
\<close>

theorem load_audio_fill_counterexample:
  "load_audio example_env ((default_args ''song.m4a'')\<lparr>frames := PyInt 5, fill_value := Some 0\<rparr>)
     = Inr (Signal \<lparr>shape = [2], data = [1, 2]\<rparr>)
   \<and> sample_axis \<lparr>shape = [2], data = [1, 2 :: int]\<rparr> \<noteq> 5"
  by (simp add: load_audio_def resolve_def apply_slice_def resolve_unit_def decode_def
      decode_m4a_def finish_def check_sample_rate_def select_channel_def transpose_T_def
      path_suffix_def path_name_def sample_axis_def default_args_def example_env_def
      lossy_file_def)

subsection \<open>The axes of the returned signal\<close>








lemma decode_soundfile_result:
  assumes "path_suffix (path a2) \<noteq> ''.m4a''" and "sf_open e (path a2) = Some f"
    and "read_window f a2 = Inr (pos, n)" and "decode e a2 = Inr (sig, sr)"
  shows "sig = sf_read f pos n (fill_value a2) (channel a2 \<noteq> None) \<and> sr = samplerate f"
  using assms by (auto simp: decode_def decode_soundfile_def split: if_splits)

lemma decode_ndim:
  assumes "decode e a = Inr (sig, sr)"
  shows "length (shape sig) = 1 \<or> length (shape sig) = 2"
  using assms
  by (auto simp: decode_def decode_m4a_def decode_soundfile_def sf_read_def Let_def
      split: if_splits option.splits sum.splits)



lemma axis_index_less: "axis_index c i = Some j \<Longrightarrow> j < c"
  by (auto simp: axis_index_def split: if_splits)

lemma axis_indices_less: "axis_indices c is = Some js \<Longrightarrow> \<forall>j\<in>set js. j < c"
  by (induction "is" arbitrary: js) (auto split: option.splits dest: axis_index_less)

lemma slice_indices_less:
  assumes "slice_indices lo hi (int c) = (a, b)"
  shows "\<forall>j\<in>set [nat a..<nat b]. j < c"
proof -
  from assms have "b \<le> int c"
    by (auto simp: slice_indices_def clip_index_def split: option.splits)
  then show ?thesis by auto
qed

lemma selected_channels_less:
  "selected_channels c ch = Some js \<Longrightarrow> \<forall>j\<in>set js. j < c"
  by (cases ch)
     (auto simp: selected_channels_def split: option.splits prod.splits
        dest: axis_index_less axis_indices_less slice_indices_less)







subsection \<open>The example files, loaded\<close>

lemma example_suffix:
  "path_suffix ''stereo.wav'' = ''.wav''" "path_suffix ''mono.wav'' = ''.wav''"
  "path_suffix ''song.m4a'' = ''.m4a''"
  by (simp_all add: path_suffix_def path_name_def)

lemma example_resolve_plain:
  "resolve example_env (default_args ''stereo.wav'') = Inr (default_args ''stereo.wav'')"
  "resolve example_env (default_args ''mono.wav'') = Inr (default_args ''mono.wav'')"
  by (simp_all add: resolve_def apply_slice_def resolve_unit_def default_args_def
      example_env_def)

lemma example_resolve_channel:
  "resolve example_env (default_args ''stereo.wav::[:,1]'')
     = Inr ((default_args ''stereo.wav'')\<lparr>channel := Some (Index 1)\<rparr>)"
proof -
  have "fullmatch_PATTERN ''[:,1]'' = Some (None, None, None, None, Some ''1'')"
    by (simp add: fullmatch_PATTERN_def expect_def opt_digits_def is_digit_def
        match_channel_part_def match_channel_range_def match_channel_index_def)
  then show ?thesis
    by (simp add: resolve_def apply_slice_def resolve_unit_def default_args_def example_env_def
        parse_audio_slice_def int_py_def digit_value_def num_value_def)
qed

lemma example_window:
  "read_window stereo_file ((default_args ''stereo.wav'')\<lparr>channel := c\<rparr>) = Inr (0, 3)"
  "read_window stereo_file (default_args ''stereo.wav'') = Inr (0, 3)"
  "read_window mono_file (default_args ''mono.wav'') = Inr (0, 4)"
  by (simp_all add: read_window_def as_index_def buffer_frames_def num_value_def prepare_read_def slice_indices_def clip_index_def
      default_args_def stereo_file_def mono_file_def)

lemma example_rows:
  "read_rows stereo_file 0 3 None = [[1, 2], [3, 4], [5, 6]]"
  "read_rows mono_file 0 4 None = [[1], [3], [5], [7]]"
  by (simp_all add: read_rows_def stereo_file_def mono_file_def)

lemma example_decode:
  "decode example_env (default_args ''stereo.wav'')
     = Inr (\<lparr>shape = [3, 2], data = [1, 2, 3, 4, 5, 6]\<rparr>, 16000)"
  "decode example_env ((default_args ''stereo.wav'')\<lparr>channel := Some c\<rparr>)
     = Inr (\<lparr>shape = [3, 2], data = [1, 2, 3, 4, 5, 6]\<rparr>, 16000)"
  "decode example_env (default_args ''mono.wav'')
     = Inr (\<lparr>shape = [4], data = [1, 3, 5, 7]\<rparr>, 8)"
proof -
  have o: "sf_open example_env ''stereo.wav'' = Some stereo_file"
    "sf_open example_env ''mono.wav'' = Some mono_file"
    by (simp_all add: example_env_def)
  have m: "channels stereo_file = 2" "samplerate stereo_file = 16000"
    "channels mono_file = 1" "samplerate mono_file = 8"
    by (simp_all add: stereo_file_def mono_file_def)
  show "decode example_env (default_args ''stereo.wav'')
     = Inr (\<lparr>shape = [3, 2], data = [1, 2, 3, 4, 5, 6]\<rparr>, 16000)"
    using example_window(2) example_rows(1) o m
    by (simp add: decode_def decode_soundfile_def example_suffix sf_read_def default_args_def)
  show "decode example_env ((default_args ''stereo.wav'')\<lparr>channel := Some c\<rparr>)
     = Inr (\<lparr>shape = [3, 2], data = [1, 2, 3, 4, 5, 6]\<rparr>, 16000)"
    using example_window(1)[of "Some c"] example_rows(1) o m
    by (simp add: decode_def decode_soundfile_def example_suffix sf_read_def default_args_def)
  show "decode example_env (default_args ''mono.wav'')
     = Inr (\<lparr>shape = [4], data = [1, 3, 5, 7]\<rparr>, 8)"
    using example_window(3) example_rows(2) o m
    by (simp add: decode_def decode_soundfile_def example_suffix sf_read_def default_args_def)
qed

lemma example_transposed:
  "transpose_T \<lparr>shape = [3, 2], data = [1, 2, 3, 4, 5, 6 :: int]\<rparr>
     = \<lparr>shape = [2, 3], data = [1, 3, 5, 2, 4, 6]\<rparr>"
  by (simp add: transpose_T_def upt_rec)

lemma example_load:
  "load_audio example_env (default_args ''stereo.wav'')
     = Inr (Signal \<lparr>shape = [2, 3], data = [1, 3, 5, 2, 4, 6]\<rparr>)"
  "load_audio example_env (default_args ''mono.wav'')
     = Inr (Signal \<lparr>shape = [4], data = [1, 3, 5, 7]\<rparr>)"
  "load_audio example_env (default_args ''stereo.wav::[:,1]'')
     = Inr (Signal \<lparr>shape = [3], data = [2, 4, 6]\<rparr>)"
proof -
  show "load_audio example_env (default_args ''stereo.wav'')
     = Inr (Signal \<lparr>shape = [2, 3], data = [1, 3, 5, 2, 4, 6]\<rparr>)"
    by (simp add: load_audio_def example_resolve_plain example_decode)
       (simp add: finish_def check_sample_rate_def example_transposed select_channel_def
          default_args_def)
  show "load_audio example_env (default_args ''mono.wav'')
     = Inr (Signal \<lparr>shape = [4], data = [1, 3, 5, 7]\<rparr>)"
    by (simp add: load_audio_def example_resolve_plain example_decode)
       (simp add: finish_def check_sample_rate_def transpose_T_def select_channel_def
          default_args_def)
  have "index_channel 2 3 [1, 3, 5, 2, 4, 6 :: int] (Index 1)
     = Inr \<lparr>shape = [3], data = [2, 4, 6]\<rparr>"
    by (simp add: index_channel_def axis_index_def row_of_def)
  then show "load_audio example_env (default_args ''stereo.wav::[:,1]'')
     = Inr (Signal \<lparr>shape = [3], data = [2, 4, 6]\<rparr>)"
    by (simp add: load_audio_def example_resolve_channel example_decode)
       (simp add: finish_def check_sample_rate_def example_transposed select_channel_def
          size_nd_def default_args_def)
qed





subsection \<open>Nested structures\<close>

lemma load_entries_all:
  assumes "length ts = length ps"
    and "\<forall>i<length ps. recursive_load_audio raises e kw (ps ! i) = Inr (ts ! i)"
  shows "load_entries raises e kw ps = Inr ts"
  using assms
proof (induction ps arbitrary: ts)
  case Nil
  then show ?case by simp
next
  case (Cons p ps)
  then obtain t ts' where ts: "ts = t # ts'" by (cases ts) auto
  from Cons.prems(2) ts have hd: "recursive_load_audio raises e kw p = Inr t" by auto
  have "\<forall>i<length ps. recursive_load_audio raises e kw (ps ! i) = Inr (ts' ! i)"
    using Cons.prems(2) ts by auto
  with Cons.prems(1) ts have "load_entries raises e kw ps = Inr ts'"
    by (intro Cons.IH) simp_all
  with hd ts show ?case by simp
qed

lemma load_items_all:
  assumes "length ts = length ps" and "length ks = length ps"
    and "\<forall>i<length ps. recursive_load_audio raises e kw (ps ! i) = Inr (ts ! i)"
  shows "load_items raises e kw (zip ks ps) = Inr (zip ks ts)"
  using assms
proof (induction ps arbitrary: ts ks)
  case Nil
  then show ?case by simp
next
  case (Cons p ps)
  then obtain t ts' where ts: "ts = t # ts'" by (cases ts) auto
  from Cons.prems(2) obtain k ks' where ks: "ks = k # ks'" by (cases ks) auto
  from Cons.prems(3) ts have hd: "recursive_load_audio raises e kw p = Inr t" by auto
  have "\<forall>i<length ps. recursive_load_audio raises e kw (ps ! i) = Inr (ts' ! i)"
    using Cons.prems(3) ts by auto
  with Cons.prems(1,2) ts ks have "load_items raises e kw (zip ks' ps) = Inr (zip ks' ts')"
    by (intro Cons.IH) simp_all
  with hd ts ks show ?case by simp
qed

lemma all_arrays_map: "all_arrays (map (\<lambda>x. Leaf (Signal x)) xs) = Some xs"
  by (induction xs) (simp_all add: as_array_def)

lemma as_array_Some: "as_array t = Some x \<Longrightarrow> t = Leaf (Signal x)"
  by (auto simp: as_array_def split: loaded_tree.splits loaded.splits)

lemma all_arrays_Some: "all_arrays ts = Some xs \<Longrightarrow> ts = map (\<lambda>x. Leaf (Signal x)) xs"
  by (induction ts arbitrary: xs) (auto split: option.splits dest: as_array_Some)

lemma same_shape_iff: "same_shape xs \<longleftrightarrow> (\<exists>s. \<forall>x\<in>set xs. shape x = s)"
  by (cases xs) (auto simp: same_shape_def list_all_iff)

lemma np_array_stacks:
  assumes "\<forall>x\<in>set xs. shape x = s"
  shows "np_array raises (map (\<lambda>x. Leaf (Signal x)) xs) = Inr (Numeric (stack xs))"
proof -
  from assms have "same_shape xs" by (auto simp: same_shape_iff)
  then show ?thesis by (simp add: np_array_def all_arrays_map)
qed

lemma np_array_ragged:
  assumes "\<nexists>xs s. ts = map (\<lambda>x. Leaf (Signal x)) xs \<and> (\<forall>x\<in>set xs. shape x = s)"
  shows "np_array raises ts = Inl (ValueError Inhomogeneous) \<or> np_array raises ts = Inr ObjectArray"
proof (cases "all_arrays ts")
  case None
  then show ?thesis by (simp add: np_array_def)
next
  case (Some xs)
  from all_arrays_Some[OF this] assms have "\<not> same_shape xs"
    by (auto simp: same_shape_iff)
  with Some show ?thesis by (simp add: np_array_def)
qed

lemma shape_stack:
  "xs \<noteq> [] \<Longrightarrow> \<forall>x\<in>set xs. shape x = s \<Longrightarrow> shape (stack xs) = length xs # s"
  by (cases xs) (simp_all add: stack_def)

text \<open>
  Claim C9. Let every entry \<open>ps ! i\<close> load, with the same keyword arguments, to \<open>ts ! i\<close>.
  Then the sequence of the entries returns one array, the results stacked under a new
  leading axis, if and only if all results are arrays of one shape, and the list of the
  results as they are otherwise; the dict with these entries as values returns the dict
  of the results under the same keys, never stacked; and a leaf returns what
  \<open>load_audio\<close> returns for it.
\<close>

theorem recursive_load_audio_structure:
  assumes "length ts = length ps" and "length ks = length ps"
    and "\<forall>i<length ps. recursive_load_audio raises e kw (ps ! i) = Inr (ts ! i)"
  shows "(\<forall>xs s. ts = map (\<lambda>x. Leaf (Signal x)) xs \<and> (\<forall>x\<in>set xs. shape x = s) \<longrightarrow>
            recursive_load_audio raises e kw (PathSeq ps) = Inr (Leaf (Signal (stack xs)))
            \<and> (xs \<noteq> [] \<longrightarrow> shape (stack xs) = length xs # s)
            \<and> data (stack xs) = concat (map data xs))
    \<and> ((\<nexists>xs s. ts = map (\<lambda>x. Leaf (Signal x)) xs \<and> (\<forall>x\<in>set xs. shape x = s)) \<longrightarrow>
            recursive_load_audio raises e kw (PathSeq ps) = Inr (LoadedSeq ts))
    \<and> recursive_load_audio raises e kw (PathDict (zip ks ps)) = Inr (LoadedDict (zip ks ts))
    \<and> recursive_load_audio raises e kw (PathLeaf p) =
        (case load_audio e (kw\<lparr>path := p, channel := None\<rparr>) of
           Inl err \<Rightarrow> Inl err
         | Inr r \<Rightarrow> Inr (Leaf r))"
proof -
  have le: "load_entries raises e kw ps = Inr ts"
    using assms(1,3) by (rule load_entries_all)
  have li: "load_items raises e kw (zip ks ps) = Inr (zip ks ts)"
    using assms by (rule load_items_all)
  have 1: "recursive_load_audio raises e kw (PathSeq ps) = Inr (Leaf (Signal (stack xs)))
            \<and> (xs \<noteq> [] \<longrightarrow> shape (stack xs) = length xs # s)
            \<and> data (stack xs) = concat (map data xs)"
    if "ts = map (\<lambda>x. Leaf (Signal x)) xs \<and> (\<forall>x\<in>set xs. shape x = s)" for xs s
    using that le np_array_stacks[of xs s raises]
    by (simp add: shape_stack) (simp add: stack_def)
  have 2: "recursive_load_audio raises e kw (PathSeq ps) = Inr (LoadedSeq ts)"
    if "\<nexists>xs s. ts = map (\<lambda>x. Leaf (Signal x)) xs \<and> (\<forall>x\<in>set xs. shape x = s)"
    using np_array_ragged[OF that, of raises] le by auto
  have 3: "recursive_load_audio raises e kw (PathDict (zip ks ps)) = Inr (LoadedDict (zip ks ts))"
    using li by simp
  have 4: "recursive_load_audio raises e kw (PathLeaf p) =
        (case load_audio e (kw\<lparr>path := p, channel := None\<rparr>) of
           Inl err \<Rightarrow> Inl err
         | Inr r \<Rightarrow> Inr (Leaf r))"
    by simp
  from 1 2 3 4 show ?thesis by blast
qed

lemma example_leaf:
  "recursive_load_audio raises example_env (default_args []) (PathLeaf ''mono.wav'')
     = Inr (Leaf (Signal \<lparr>shape = [4], data = [1, 3, 5, 7]\<rparr>))"
  "recursive_load_audio raises example_env (default_args []) (PathLeaf ''stereo.wav'')
     = Inr (Leaf (Signal \<lparr>shape = [2, 3], data = [1, 3, 5, 2, 4, 6]\<rparr>))"
proof -
  have "(default_args [] :: int load_args)\<lparr>path := p, channel := None\<rparr> = default_args p" for p
    by (simp add: default_args_def)
  then show
    "recursive_load_audio raises example_env (default_args []) (PathLeaf ''mono.wav'')
       = Inr (Leaf (Signal \<lparr>shape = [4], data = [1, 3, 5, 7]\<rparr>))"
    "recursive_load_audio raises example_env (default_args []) (PathLeaf ''stereo.wav'')
       = Inr (Leaf (Signal \<lparr>shape = [2, 3], data = [1, 3, 5, 2, 4, 6]\<rparr>))"
    by (simp_all add: example_load)
qed

text \<open>
  The file of one channel twice, as a list and as a dict, and a list of the two files,
  whose shapes differ.
\<close>

theorem recursive_load_audio_structure_witness:
  "recursive_load_audio (\<lambda>ts. True) example_env (default_args [])
     (PathSeq [PathLeaf ''mono.wav'', PathLeaf ''mono.wav''])
     = Inr (Leaf (Signal \<lparr>shape = [2, 4], data = [1, 3, 5, 7, 1, 3, 5, 7]\<rparr>))
   \<and> recursive_load_audio (\<lambda>ts. True) example_env (default_args [])
     (PathDict [(''a'', PathLeaf ''mono.wav''), (''b'', PathLeaf ''mono.wav'')])
     = Inr (LoadedDict [(''a'', Leaf (Signal \<lparr>shape = [4], data = [1, 3, 5, 7]\<rparr>)),
                        (''b'', Leaf (Signal \<lparr>shape = [4], data = [1, 3, 5, 7]\<rparr>))])
   \<and> recursive_load_audio (\<lambda>ts. True) example_env (default_args [])
     (PathSeq [PathLeaf ''mono.wav'', PathLeaf ''stereo.wav''])
     = Inr (LoadedSeq [Leaf (Signal \<lparr>shape = [4], data = [1, 3, 5, 7]\<rparr>),
                       Leaf (Signal \<lparr>shape = [2, 3], data = [1, 3, 5, 2, 4, 6]\<rparr>)])"
proof -
  let ?m = "\<lparr>shape = [4], data = [1, 3, 5, 7 :: int]\<rparr>"
  let ?s = "\<lparr>shape = [2, 3], data = [1, 3, 5, 2, 4, 6 :: int]\<rparr>"
  let ?ps = "[PathLeaf ''mono.wav'', PathLeaf ''mono.wav'']"
  let ?qs = "[PathLeaf ''mono.wav'', PathLeaf ''stereo.wav'']"
  let ?ts = "[Leaf (Signal ?m), Leaf (Signal ?m)]"
  let ?us = "[Leaf (Signal ?m), Leaf (Signal ?s)]"
  let ?ks = "[''a'', ''b'']"
  have p: "\<forall>i<length ?ps. recursive_load_audio (\<lambda>ts. True) example_env (default_args []) (?ps ! i)
      = Inr (?ts ! i)"
  proof (intro allI impI)
    fix i :: nat
    assume "i < length ?ps"
    then have "i = 0 \<or> i = 1" by auto
    then show "recursive_load_audio (\<lambda>ts. True) example_env (default_args []) (?ps ! i)
      = Inr (?ts ! i)"
      by (auto simp add: example_leaf simp del: recursive_load_audio.simps)
  qed
  have q: "\<forall>i<length ?qs. recursive_load_audio (\<lambda>ts. True) example_env (default_args []) (?qs ! i)
      = Inr (?us ! i)"
  proof (intro allI impI)
    fix i :: nat
    assume "i < length ?qs"
    then have "i = 0 \<or> i = 1" by auto
    then show "recursive_load_audio (\<lambda>ts. True) example_env (default_args []) (?qs ! i)
      = Inr (?us ! i)"
      by (auto simp add: example_leaf simp del: recursive_load_audio.simps)
  qed
  have len: "length ?ts = length ?ps" "length ?ks = length ?ps"
    "length ?us = length ?qs" "length ?ks = length ?qs"
    by simp_all
  have same: "?ts = map (\<lambda>x. Leaf (Signal x)) [?m, ?m] \<and> (\<forall>x\<in>set [?m, ?m]. shape x = [4])"
    by simp
  have differ: "\<nexists>xs s. ?us = map (\<lambda>x. Leaf (Signal x)) xs \<and> (\<forall>x\<in>set xs. shape x = s)"
    by (auto simp: Cons_eq_map_conv)
  have st: "stack [?m, ?m] = \<lparr>shape = [2, 4], data = [1, 3, 5, 7, 1, 3, 5, 7]\<rparr>"
    by (simp add: stack_def)
  note A = recursive_load_audio_structure[OF len(1,2) p]
  note B = recursive_load_audio_structure[OF len(3,4) q]
  have "recursive_load_audio (\<lambda>ts. True) example_env (default_args []) (PathSeq ?ps)
      = Inr (Leaf (Signal (stack [?m, ?m])))"
    by (rule A[THEN conjunct1, THEN spec, THEN spec, THEN mp, OF same, THEN conjunct1])
  then have 1: "recursive_load_audio (\<lambda>ts. True) example_env (default_args []) (PathSeq ?ps)
      = Inr (Leaf (Signal \<lparr>shape = [2, 4], data = [1, 3, 5, 7, 1, 3, 5, 7]\<rparr>))"
    by (simp only: st)
  have "recursive_load_audio (\<lambda>ts. True) example_env (default_args []) (PathDict (zip ?ks ?ps))
      = Inr (LoadedDict (zip ?ks ?ts))"
    by (rule A[THEN conjunct2, THEN conjunct2, THEN conjunct1])
  then have 2: "recursive_load_audio (\<lambda>ts. True) example_env (default_args [])
     (PathDict [(''a'', PathLeaf ''mono.wav''), (''b'', PathLeaf ''mono.wav'')])
     = Inr (LoadedDict [(''a'', Leaf (Signal ?m)), (''b'', Leaf (Signal ?m))])"
    by (simp only: zip_Cons_Cons zip_Nil)
  have 3: "recursive_load_audio (\<lambda>ts. True) example_env (default_args []) (PathSeq ?qs)
      = Inr (LoadedSeq ?us)"
    by (rule B[THEN conjunct2, THEN conjunct1, THEN mp, OF differ])
  from 1 2 3 show ?thesis by (intro conjI)
qed

end
